theory Spec2Isabelle
  imports Complex_Main "HOL-Library.Sublist"
begin

section \<open>Exception classes and exception objects\<close>

text \<open>
  The retry wrapper of \<^verbatim>\<open>libcloud/utils/retry.py\<close> inspects exceptions in three ways:
  \<^verbatim>\<open>except ssl.SSLError\<close> and \<^verbatim>\<open>isinstance(exc, RateLimitReachedError)\<close> follow the class
  hierarchy, \<^verbatim>\<open>type(exception) in self.retry_exceptions\<close> compares the exact class.
  A class is therefore a value with a chain of base classes.  The built-in classes the
  module names are constructors with their Python 3 bases (\<^verbatim>\<open>socket.error\<close> is the
  parent of \<^verbatim>\<open>socket.gaierror\<close> and of \<^verbatim>\<open>ssl.SSLError\<close>); \<open>UserClass name base\<close> is any
  further class, declared with one base.

  Modelled from the spec: \<^verbatim>\<open>RateLimitReachedError\<close> is imported from
  \<^verbatim>\<open>libcloud.common.exceptions\<close> and \<^verbatim>\<open>NotConnected\<close>, \<^verbatim>\<open>ImproperConnectionState\<close> from
  \<^verbatim>\<open>libcloud.utils.py3\<close>.  The rate-limit class is taken as an ordinary exception (a
  subclass of \<^verbatim>\<open>Exception\<close>) whose instances carry a numeric \<^verbatim>\<open>retry_after\<close>; the two
  transport errors are the standard library's subclasses of \<^verbatim>\<open>HTTPException\<close>.
\<close>

datatype pyclass =
    BaseException
  | KeyboardInterrupt
  | SystemExit
  | Exception
  | ValueError
  | socket_error
  | gaierror
  | SSLError
  | TransientSSLError
  | HTTPException
  | NotConnected
  | ImproperConnectionState
  | RateLimitReachedError
  | UserClass string pyclass

text \<open>The class itself followed by all its ancestors.\<close>

fun mro :: "pyclass \<Rightarrow> pyclass list" where
  "mro BaseException = [BaseException]"
| "mro KeyboardInterrupt = [KeyboardInterrupt, BaseException]"
| "mro SystemExit = [SystemExit, BaseException]"
| "mro Exception = [Exception, BaseException]"
| "mro ValueError = [ValueError, Exception, BaseException]"
| "mro socket_error = [socket_error, Exception, BaseException]"
| "mro gaierror = [gaierror, socket_error, Exception, BaseException]"
| "mro SSLError = [SSLError, socket_error, Exception, BaseException]"
| "mro TransientSSLError =
     [TransientSSLError, SSLError, socket_error, Exception, BaseException]"
| "mro HTTPException = [HTTPException, Exception, BaseException]"
| "mro NotConnected = [NotConnected, HTTPException, Exception, BaseException]"
| "mro ImproperConnectionState =
     [ImproperConnectionState, HTTPException, Exception, BaseException]"
| "mro RateLimitReachedError = [RateLimitReachedError, Exception, BaseException]"
| "mro (UserClass name base) = UserClass name base # mro base"

definition issubclass :: "pyclass \<Rightarrow> pyclass \<Rightarrow> bool" where
  "issubclass c d = (d \<in> set (mro c))"

text \<open>
  An exception object: its exact class (\<^verbatim>\<open>type(exc)\<close>), its text (\<^verbatim>\<open>str(exc)\<close>, fixed by
  its \<^verbatim>\<open>args\<close>) and the \<^verbatim>\<open>retry_after\<close> attribute, which the loop reads only on
  instances of the rate-limit class.
\<close>

record exn =
  exc_type :: pyclass
  exc_str :: string
  retry_after :: real

definition isinstance :: "exn \<Rightarrow> pyclass \<Rightarrow> bool" where
  "isinstance exc c = issubclass (exc_type exc) c"

datatype 'a outcome = Return 'a | Raise exn

section \<open>Module constants and the \<open>Retry\<close> object\<close>

definition TRANSIENT_SSL_ERROR :: string where
  "TRANSIENT_SSL_ERROR = ''The read operation timed out''"

definition DEFAULT_TIMEOUT :: real where
  "DEFAULT_TIMEOUT = 30"

definition DEFAULT_DELAY :: real where
  "DEFAULT_DELAY = 1"

definition DEFAULT_BACKOFF :: real where
  "DEFAULT_BACKOFF = 1"

definition RETRY_EXCEPTIONS :: "pyclass list" where
  "RETRY_EXCEPTIONS = [RateLimitReachedError, socket_error, gaierror,
                       NotConnected, ImproperConnectionState, TransientSSLError]"

text \<open>
  Delays, timeouts and clock readings are real numbers of seconds: Python's integers
  are unbounded and the rounding of its floats is left out.
\<close>

record retry =
  retry_exceptions :: "pyclass list"
  retry_delay :: real
  timeout :: real
  backoff :: real

text \<open>\<^verbatim>\<open>Retry.__init__\<close>: an argument left out and an argument \<^verbatim>\<open>None\<close> are both \<open>None\<close>.\<close>

definition Retry_init ::
  "pyclass list option \<Rightarrow> real option \<Rightarrow> real option \<Rightarrow> real option \<Rightarrow> retry" where
  "Retry_init exceptions_arg delay_arg timeout_arg backoff_arg =
     (let retry_exceptions = (case exceptions_arg of None \<Rightarrow> RETRY_EXCEPTIONS | Some x \<Rightarrow> x);
          retry_delay = (case delay_arg of None \<Rightarrow> DEFAULT_DELAY | Some x \<Rightarrow> x);
          timeout = (case timeout_arg of None \<Rightarrow> DEFAULT_TIMEOUT | Some x \<Rightarrow> x);
          backoff = (case backoff_arg of None \<Rightarrow> DEFAULT_BACKOFF | Some x \<Rightarrow> x);
          timeout = max timeout 0
      in \<lparr>retry_exceptions = retry_exceptions, retry_delay = retry_delay,
          timeout = timeout, backoff = backoff\<rparr>)"

definition should_retry :: "retry \<Rightarrow> exn \<Rightarrow> bool" where
  "should_retry self exception = (exc_type exception \<in> set (retry_exceptions self))"

section \<open>The world the wrapper runs in\<close>

text \<open>
  The wrapped callable, \<^verbatim>\<open>datetime.now()\<close> and \<^verbatim>\<open>time.sleep\<close> act on a world \<open>'w\<close> about
  which nothing is assumed: the callable returns or raises and leaves a new world,
  the clock is read off the world, sleeping leaves a new world.  A run carries the
  world and the list of calls and sleeps made so far, oldest first.
\<close>

datatype event = Called | Slept real

record ('w, 'args, 'a) env =
  env_func :: "'args \<Rightarrow> 'w \<Rightarrow> 'a outcome \<times> 'w"
  env_now :: "'w \<Rightarrow> real"
  env_sleep :: "real \<Rightarrow> 'w \<Rightarrow> 'w"

record 'w run =
  world :: 'w
  trace :: "event list"

text \<open>\<^verbatim>\<open>time.sleep\<close> refuses a negative length with a \<^verbatim>\<open>ValueError\<close> and does not sleep.\<close>

definition sleep_error :: exn where
  "sleep_error = \<lparr>exc_type = ValueError,
                  exc_str = ''sleep length must be non-negative'', retry_after = 0\<rparr>"

definition time_sleep :: "('w, 'args, 'a) env \<Rightarrow> real \<Rightarrow> 'w run \<Rightarrow> exn + 'w run" where
  "time_sleep env secs s =
     (if secs < 0 then Inl sleep_error
      else Inr (s\<lparr>world := env_sleep env secs (world s), trace := trace s @ [Slept secs]\<rparr>))"

section \<open>The wrapper\<close>

text \<open>
  \<^verbatim>\<open>transform_ssl_error\<close>: one call of the callable.  An instance of \<^verbatim>\<open>ssl.SSLError\<close> whose
  text contains the marker is replaced by a new \<^verbatim>\<open>TransientSSLError\<close> built from the same
  \<^verbatim>\<open>args\<close>; every other exception passes through as it is.
\<close>

definition transform_ssl_error ::
  "('w, 'args, 'a) env \<Rightarrow> 'args \<Rightarrow> 'w run \<Rightarrow> 'a outcome \<times> 'w run" where
  "transform_ssl_error env args s =
     (case env_func env args (world s) of
        (res, w) \<Rightarrow>
          let s1 = s\<lparr>world := w, trace := trace s @ [Called]\<rparr> in
          (case res of
             Return v \<Rightarrow> (Return v, s1)
           | Raise exc \<Rightarrow>
               if isinstance exc SSLError then
                 if sublist TRANSIENT_SSL_ERROR (exc_str exc)
                 then (Raise (exc\<lparr>exc_type := TransientSSLError\<rparr>), s1)
                 else (Raise exc, s1)
               else (Raise exc, s1)))"

text \<open>
  The \<^verbatim>\<open>while True\<close> loop of \<^verbatim>\<open>retry_loop\<close>, with its two variables \<^verbatim>\<open>current_delay\<close> and
  \<^verbatim>\<open>end\<close> as arguments.  The loop need not end, so its result is an option: \<open>None\<close> is
  a run that never returns.  An exception that is no instance of \<^verbatim>\<open>Exception\<close>
  passes the \<^verbatim>\<open>except\<close> clause; an exception raised by \<^verbatim>\<open>time.sleep\<close> inside the handler
  leaves the loop.
\<close>

partial_function (option) retry_while ::
  "retry \<Rightarrow> ('w, 'args, 'a) env \<Rightarrow> 'args \<Rightarrow> real \<Rightarrow> real \<Rightarrow> 'w run \<Rightarrow>
   ('a outcome \<times> 'w run) option" where
  "retry_while self env args current_delay end_time s =
     (case transform_ssl_error env args s of
        (Return v, s1) \<Rightarrow> Some (Return v, s1)
      | (Raise exc, s1) \<Rightarrow>
          if \<not> isinstance exc Exception then Some (Raise exc, s1)
          else if isinstance exc RateLimitReachedError then
            (case time_sleep env (retry_after exc) s1 of
               Inl err \<Rightarrow> Some (Raise err, s1)
             | Inr s2 \<Rightarrow>
                 retry_while self env args (retry_delay self)
                   (env_now env (world s2) + (retry_after exc + timeout self)) s2)
          else if env_now env (world s1) \<ge> end_time then Some (Raise exc, s1)
          else if should_retry self exc then
            (case time_sleep env current_delay s1 of
               Inl err \<Rightarrow> Some (Raise err, s1)
             | Inr s2 \<Rightarrow>
                 retry_while self env args (current_delay * backoff self) end_time s2)
          else Some (Raise exc, s1))"

definition retry_loop ::
  "retry \<Rightarrow> ('w, 'args, 'a) env \<Rightarrow> 'args \<Rightarrow> 'w run \<Rightarrow> ('a outcome \<times> 'w run) option" where
  "retry_loop self env args s =
     retry_while self env args (retry_delay self)
       (env_now env (world s) + timeout self) s"

section \<open>Runs of failed attempts\<close>

text \<open>
  \<open>attempt_state env args b d s n\<close> is the run in which attempt \<open>n + 1\<close> starts when
  the run \<open>s\<close> is followed by \<open>n\<close> attempts, each followed by a sleep, the first of
  length \<open>d\<close> and each later one \<open>b\<close> times the one before.
\<close>

fun attempt_state ::
  "('w, 'args, 'a) env \<Rightarrow> 'args \<Rightarrow> real \<Rightarrow> real \<Rightarrow> 'w run \<Rightarrow> nat \<Rightarrow> 'w run" where
  "attempt_state env args b d s 0 = s"
| "attempt_state env args b d s (Suc n) =
     (let s1 = snd (transform_ssl_error env args s)
      in attempt_state env args b (d * b)
           (s1\<lparr>world := env_sleep env d (world s1), trace := trace s1 @ [Slept d]\<rparr>) n)"

text \<open>
  The exception that leaves \<^verbatim>\<open>transform_ssl_error\<close> when the callable raises \<open>exc\<close>
  (the \<^verbatim>\<open>except ssl.SSLError\<close> clause): the new \<^verbatim>\<open>TransientSSLError\<close> for an SSL error
  with the marker in its text, \<open>exc\<close> itself otherwise.
\<close>

definition ssl_transformed :: "exn \<Rightarrow> exn" where
  "ssl_transformed exc =
     (if isinstance exc SSLError \<and> sublist TRANSIENT_SSL_ERROR (exc_str exc)
      then exc\<lparr>exc_type := TransientSSLError\<rparr> else exc)"

text \<open>
  \<open>after_rate_limits env args w es\<close> is the world in which the next call starts when,
  from the world \<open>w\<close>, one call was made for each error of \<open>es\<close> and each of these
  calls was followed by a sleep of the \<^verbatim>\<open>retry_after\<close> of its error.
\<close>

fun after_rate_limits :: "('w, 'args, 'a) env \<Rightarrow> 'args \<Rightarrow> 'w \<Rightarrow> exn list \<Rightarrow> 'w" where
  "after_rate_limits env args w [] = w"
| "after_rate_limits env args w (e # es) =
     after_rate_limits env args (env_sleep env (retry_after e) (snd (env_func env args w))) es"

section \<open>Two concrete worlds\<close>

text \<open>
  A scripted callable: the world is a clock and a script; each call plays the next
  entry of the script, an outcome and the seconds it takes.  Once the script is
  used up the callable returns its argument at once.  Sleeping moves the clock on
  by the length slept.
\<close>

type_synonym 'a scripted = "real \<times> ('a outcome \<times> real) list"

definition scripted_func :: "'a \<Rightarrow> 'a scripted \<Rightarrow> 'a outcome \<times> 'a scripted" where
  "scripted_func arg w =
     (case w of (clock, script) \<Rightarrow>
        (case script of
           [] \<Rightarrow> (Return arg, (clock, []))
         | (res, took) # rest \<Rightarrow> (res, (clock + took, rest))))"

definition scripted_env :: "('a scripted, 'a, 'a) env" where
  "scripted_env = \<lparr>env_func = scripted_func, env_now = fst,
                    env_sleep = (\<lambda>secs w. (fst w + secs, snd w))\<rparr>"

definition rate_limited :: "pyclass \<Rightarrow> real \<Rightarrow> exn" where
  "rate_limited c secs = \<lparr>exc_type = c, exc_str = ''429 Rate limit exceeded'',
                            retry_after = secs\<rparr>"

definition plain_error :: "pyclass \<Rightarrow> string \<Rightarrow> exn" where
  "plain_error c msg = \<lparr>exc_type = c, exc_str = msg, retry_after = 0\<rparr>"

text \<open>A server that answers every request with a rate-limit error; the world is the clock.\<close>

definition throttling_env :: "(real, unit, nat) env" where
  "throttling_env = \<lparr>env_func = (\<lambda>args clock. (Raise (rate_limited RateLimitReachedError 1), clock)),
                      env_now = (\<lambda>clock. clock),
                      env_sleep = (\<lambda>secs clock. clock + secs)\<rparr>"

section \<open>Facts about the class hierarchy\<close>

lemma mro_RateLimit_Exception:
  "RateLimitReachedError \<in> set (mro c) \<Longrightarrow> Exception \<in> set (mro c)"
  by (induction c) auto

lemma mro_SSLError_Exception:
  "SSLError \<in> set (mro c) \<Longrightarrow> Exception \<in> set (mro c)"
  by (induction c) auto

lemma mro_RateLimit_not_SSLError:
  "RateLimitReachedError \<in> set (mro c) \<Longrightarrow> SSLError \<notin> set (mro c)"
  by (induction c) auto

lemma isinstance_RateLimit_Exception:
  "isinstance e RateLimitReachedError \<Longrightarrow> isinstance e Exception"
  by (simp add: isinstance_def issubclass_def mro_RateLimit_Exception)

lemma isinstance_SSLError_Exception:
  "isinstance e SSLError \<Longrightarrow> isinstance e Exception"
  by (simp add: isinstance_def issubclass_def mro_SSLError_Exception)

lemma isinstance_RateLimit_not_SSLError:
  "isinstance e RateLimitReachedError \<Longrightarrow> \<not> isinstance e SSLError"
  by (simp add: isinstance_def issubclass_def mro_RateLimit_not_SSLError)

section \<open>One attempt and one turn of the loop\<close>

lemma run_updates:
  "(s :: 'w run)\<lparr>world := w, trace := tr\<rparr> = \<lparr>world = w, trace = tr\<rparr>"
  by (cases s) simp

lemma transform_Return:
  "env_func env args (world s) = (Return v, w) \<Longrightarrow>
   transform_ssl_error env args s = (Return v, s\<lparr>world := w, trace := trace s @ [Called]\<rparr>)"
  by (simp add: transform_ssl_error_def)

lemma transform_Raise_plain:
  "env_func env args (world s) = (Raise e, w) \<Longrightarrow> \<not> isinstance e SSLError \<Longrightarrow>
   transform_ssl_error env args s = (Raise e, s\<lparr>world := w, trace := trace s @ [Called]\<rparr>)"
  by (simp add: transform_ssl_error_def)

lemma transform_trace:
  "transform_ssl_error env args s = (res, s1) \<Longrightarrow> trace s1 = trace s @ [Called]"
  by (auto simp: transform_ssl_error_def Let_def split: prod.splits outcome.splits if_splits)

lemma while_Return:
  "transform_ssl_error env args s = (Return v, s1) \<Longrightarrow>
   retry_while self env args d end_time s = Some (Return v, s1)"
  by (subst retry_while.simps) simp

lemma while_not_Exception:
  "transform_ssl_error env args s = (Raise e, s1) \<Longrightarrow> \<not> isinstance e Exception \<Longrightarrow>
   retry_while self env args d end_time s = Some (Raise e, s1)"
  by (subst retry_while.simps) simp

lemma while_RateLimit:
  "transform_ssl_error env args s = (Raise e, s1) \<Longrightarrow>
   isinstance e RateLimitReachedError \<Longrightarrow> 0 \<le> retry_after e \<Longrightarrow>
   retry_while self env args d end_time s =
   retry_while self env args (retry_delay self)
     (env_now env (env_sleep env (retry_after e) (world s1)) + (retry_after e + timeout self))
     (s1\<lparr>world := env_sleep env (retry_after e) (world s1),
         trace := trace s1 @ [Slept (retry_after e)]\<rparr>)"
  by (subst retry_while.simps) (simp add: isinstance_RateLimit_Exception time_sleep_def)

lemma while_deadline:
  "transform_ssl_error env args s = (Raise e, s1) \<Longrightarrow>
   \<not> isinstance e RateLimitReachedError \<Longrightarrow> end_time \<le> env_now env (world s1) \<Longrightarrow>
   retry_while self env args d end_time s = Some (Raise e, s1)"
  by (subst retry_while.simps) simp

lemma while_backoff:
  "transform_ssl_error env args s = (Raise e, s1) \<Longrightarrow> isinstance e Exception \<Longrightarrow>
   \<not> isinstance e RateLimitReachedError \<Longrightarrow> env_now env (world s1) < end_time \<Longrightarrow>
   should_retry self e \<Longrightarrow> 0 \<le> d \<Longrightarrow>
   retry_while self env args d end_time s =
   retry_while self env args (d * backoff self) end_time
     (s1\<lparr>world := env_sleep env d (world s1), trace := trace s1 @ [Slept d]\<rparr>)"
  by (subst retry_while.simps) (simp add: time_sleep_def)

lemma while_not_retryable:
  "transform_ssl_error env args s = (Raise e, s1) \<Longrightarrow>
   \<not> isinstance e RateLimitReachedError \<Longrightarrow> \<not> should_retry self e \<Longrightarrow>
   retry_while self env args d end_time s = Some (Raise e, s1)"
  by (subst retry_while.simps) simp

section \<open>Properties of every run that returns\<close>

lemma sleep_error_not_RateLimit: "\<not> isinstance sleep_error RateLimitReachedError"
  by (simp add: sleep_error_def isinstance_def issubclass_def)


lemma while_never_raises_RateLimit:
  fixes env :: "('w, 'args, 'r) env"
  assumes "retry_while self env args d end_time s = Some y"
  shows "\<forall>x. fst y = Raise x \<longrightarrow> \<not> isinstance x RateLimitReachedError"
proof (rule retry_while.raw_induct[OF _ assms])
  fix f :: "retry \<Rightarrow> ('w, 'args, 'r) env \<Rightarrow> 'args \<Rightarrow> real \<Rightarrow> real \<Rightarrow> 'w run \<Rightarrow>
            ('r outcome \<times> 'w run) option"
  fix self env args d end_time s y
  assume IH: "\<And>self env args d end_time s y. f self env args d end_time s = Some y \<Longrightarrow>
             \<forall>x. fst y = Raise x \<longrightarrow> \<not> isinstance x RateLimitReachedError"
  assume body: "(case transform_ssl_error env args s of
        (Return v, s1) \<Rightarrow> Some (Return v, s1)
      | (Raise exc, s1) \<Rightarrow>
          if \<not> isinstance exc Exception then Some (Raise exc, s1)
          else if isinstance exc RateLimitReachedError then
            (case time_sleep env (retry_after exc) s1 of
               Inl err \<Rightarrow> Some (Raise err, s1)
             | Inr s2 \<Rightarrow>
                 f self env args (retry_delay self)
                   (env_now env (world s2) + (retry_after exc + timeout self)) s2)
          else if env_now env (world s1) \<ge> end_time then Some (Raise exc, s1)
          else if should_retry self exc then
            (case time_sleep env d s1 of
               Inl err \<Rightarrow> Some (Raise err, s1)
             | Inr s2 \<Rightarrow>
                 f self env args (d * backoff self) end_time s2)
          else Some (Raise exc, s1)) = Some y"
  obtain res s1 where t: "transform_ssl_error env args s = (res, s1)"
    by (cases "transform_ssl_error env args s")
  show "\<forall>x. fst y = Raise x \<longrightarrow> \<not> isinstance x RateLimitReachedError"
  proof (cases res)
    case (Return v)
    with body t show ?thesis by auto
  next
    case (Raise exc)
    show ?thesis
    proof (cases "isinstance exc RateLimitReachedError")
      case True
      then have ex: "isinstance exc Exception"
        by (rule isinstance_RateLimit_Exception)
      show ?thesis
      proof (cases "retry_after exc < 0")
        case True
        with body t Raise ex \<open>isinstance exc RateLimitReachedError\<close>
        have "y = (Raise sleep_error, s1)"
          by (simp add: time_sleep_def)
        then show ?thesis by (simp add: sleep_error_not_RateLimit)
      next
        case False
        with body t Raise ex \<open>isinstance exc RateLimitReachedError\<close>
        have "\<exists>d' e' s2. f self env args d' e' s2 = Some y"
          by (auto simp: time_sleep_def)
        with IH show ?thesis by blast
      qed
    next
      case notrl: False
      show ?thesis
      proof (cases "\<not> isinstance exc Exception \<or> end_time \<le> env_now env (world s1)
                    \<or> \<not> should_retry self exc")
        case True
        with body t Raise notrl have "y = (Raise exc, s1)"
          by (auto split: if_splits)
        with notrl show ?thesis by simp
      next
        case retry: False
        show ?thesis
        proof (cases "d < 0")
          case True
          with body t Raise notrl retry have "y = (Raise sleep_error, s1)"
            by (simp add: time_sleep_def)
          then show ?thesis by (simp add: sleep_error_not_RateLimit)
        next
          case False
          with body t Raise notrl retry
          have "\<exists>d' e' s2. f self env args d' e' s2 = Some y"
            by (auto simp: time_sleep_def)
          with IH show ?thesis by blast
        qed
      qed
    qed
  qed
qed

lemma while_perpetual:
  fixes env :: "('w, 'args, 'r) env"
  assumes rl: "\<And>w. \<exists>e w'. env_func env args w = (Raise e, w') \<and>
                 isinstance e RateLimitReachedError \<and> 0 \<le> retry_after e"
  shows "retry_while self env args d end_time s = None"
proof (rule ccontr)
  assume "retry_while self env args d end_time s \<noteq> None"
  then obtain y where y: "retry_while self env args d end_time s = Some y" by auto
  have "env = env \<and> args = args \<longrightarrow> False"
  proof (rule retry_while.raw_induct[OF _ y,
        where P = "\<lambda>self' env' args' d' e' s' y'. env' = env \<and> args' = args \<longrightarrow> False"])
    fix f :: "retry \<Rightarrow> ('w, 'args, 'r) env \<Rightarrow> 'args \<Rightarrow> real \<Rightarrow> real \<Rightarrow> 'w run \<Rightarrow>
              ('r outcome \<times> 'w run) option"
    fix self' env' args' d' end_time' s' y'
    assume IH: "\<And>self env' args' d end_time s y. f self env' args' d end_time s = Some y \<Longrightarrow>
             env' = env \<and> args' = args \<longrightarrow> False"
    assume body: "(case transform_ssl_error env' args' s' of
        (Return v, s1) \<Rightarrow> Some (Return v, s1)
      | (Raise exc, s1) \<Rightarrow>
          if \<not> isinstance exc Exception then Some (Raise exc, s1)
          else if isinstance exc RateLimitReachedError then
            (case time_sleep env' (retry_after exc) s1 of
               Inl err \<Rightarrow> Some (Raise err, s1)
             | Inr s2 \<Rightarrow>
                 f self' env' args' (retry_delay self')
                   (env_now env' (world s2) + (retry_after exc + timeout self')) s2)
          else if env_now env' (world s1) \<ge> end_time' then Some (Raise exc, s1)
          else if should_retry self' exc then
            (case time_sleep env' d' s1 of
               Inl err \<Rightarrow> Some (Raise err, s1)
             | Inr s2 \<Rightarrow>
                 f self' env' args' (d' * backoff self') end_time' s2)
          else Some (Raise exc, s1)) = Some y'"
    show "env' = env \<and> args' = args \<longrightarrow> False"
    proof
      assume eq: "env' = env \<and> args' = args"
      from rl obtain e w' where e: "env_func env args (world s') = (Raise e, w')"
        "isinstance e RateLimitReachedError" "0 \<le> retry_after e" by blast
      have t: "transform_ssl_error env args s' =
                 (Raise e, s'\<lparr>world := w', trace := trace s' @ [Called]\<rparr>)"
        using e by (simp add: transform_Raise_plain isinstance_RateLimit_not_SSLError)
      from body eq t e have "\<exists>d'' e'' s2. f self' env args d'' e'' s2 = Some y'"
        by (auto simp: time_sleep_def isinstance_RateLimit_Exception)
      with IH show False by blast
    qed
  qed
  then show False by simp
qed

section \<open>Runs of back-off retries\<close>

lemma attempt_state_trace:
  "trace (attempt_state env args b d s n) =
   trace s @ concat (map (\<lambda>i. [Called, Slept (d * b ^ i)]) [0..<n])"
proof (induction n arbitrary: d s)
  case 0
  show ?case by simp
next
  case (Suc n)
  obtain res s1 where t: "transform_ssl_error env args s = (res, s1)"
    by (cases "transform_ssl_error env args s")
  have tr: "trace s1 = trace s @ [Called]"
    using t by (rule transform_trace)
  have shift: "map (\<lambda>i. [Called, Slept (d * b ^ i)]) [0..<Suc n] =
               [Called, Slept d] # map (\<lambda>i. [Called, Slept (d * b * b ^ i)]) [0..<n]"
    by (simp only: map_upt_Suc) (simp add: mult.assoc)
  show ?case
    by (simp only: attempt_state.simps Let_def Suc.IH t snd_conv shift) (simp add: tr)
qed

lemma while_backoff_run:
  fixes env :: "('w, 'args, 'r) env"
  assumes K: "K \<in> set (retry_exceptions self)" "issubclass K Exception"
             "\<not> issubclass K RateLimitReachedError"
  shows "(\<forall>n<N. \<exists>e.
            fst (transform_ssl_error env args (attempt_state env args (backoff self) d s n)) = Raise e
            \<and> exc_type e = K
            \<and> env_now env (world (snd (transform_ssl_error env args
                  (attempt_state env args (backoff self) d s n)))) < end_time
            \<and> 0 \<le> d * backoff self ^ n) \<Longrightarrow>
         fst (transform_ssl_error env args (attempt_state env args (backoff self) d s N)) = Return v \<Longrightarrow>
         retry_while self env args d end_time s =
           Some (Return v, snd (transform_ssl_error env args
                                  (attempt_state env args (backoff self) d s N)))"
proof (induction N arbitrary: d s)
  case 0
  then have "transform_ssl_error env args s = (Return v, snd (transform_ssl_error env args s))"
    by (simp add: prod_eq_iff)
  then show ?case
    by (simp add: while_Return)
next
  case (Suc N)
  let ?b = "backoff self"
  from Suc.prems(1) have "\<exists>e.
      fst (transform_ssl_error env args (attempt_state env args ?b d s 0)) = Raise e
      \<and> exc_type e = K
      \<and> env_now env (world (snd (transform_ssl_error env args
            (attempt_state env args ?b d s 0)))) < end_time
      \<and> 0 \<le> d * ?b ^ 0"
    by blast
  then obtain e where e: "fst (transform_ssl_error env args s) = Raise e" "exc_type e = K"
      "env_now env (world (snd (transform_ssl_error env args s))) < end_time" "0 \<le> d"
    by auto
  define s1 where "s1 = snd (transform_ssl_error env args s)"
  define s2 where "s2 = s1\<lparr>world := env_sleep env d (world s1), trace := trace s1 @ [Slept d]\<rparr>"
  have t: "transform_ssl_error env args s = (Raise e, s1)"
    using e(1) by (simp add: s1_def prod_eq_iff)
  have shiftS: "attempt_state env args ?b d s (Suc n) = attempt_state env args ?b (d * ?b) s2 n" for n
    by (simp add: s1_def s2_def Let_def)
  have step: "retry_while self env args d end_time s =
              retry_while self env args (d * ?b) end_time s2"
    unfolding s2_def
  proof (rule while_backoff[OF t])
    show "isinstance e Exception" using K(2) e(2) by (simp add: isinstance_def)
    show "\<not> isinstance e RateLimitReachedError" using K(3) e(2) by (simp add: isinstance_def)
    show "env_now env (world s1) < end_time" using e(3) by (simp add: s1_def)
    show "should_retry self e" using K(1) e(2) by (simp add: should_retry_def)
    show "0 \<le> d" by (rule e(4))
  qed
  have fails: "\<forall>n<N. \<exists>e.
      fst (transform_ssl_error env args (attempt_state env args ?b (d * ?b) s2 n)) = Raise e
      \<and> exc_type e = K
      \<and> env_now env (world (snd (transform_ssl_error env args
            (attempt_state env args ?b (d * ?b) s2 n)))) < end_time
      \<and> 0 \<le> d * ?b * ?b ^ n"
  proof (intro allI impI)
    fix n assume "n < N"
    then have "Suc n < Suc N" by simp
    with Suc.prems(1) have "\<exists>e.
      fst (transform_ssl_error env args (attempt_state env args ?b d s (Suc n))) = Raise e
      \<and> exc_type e = K
      \<and> env_now env (world (snd (transform_ssl_error env args
            (attempt_state env args ?b d s (Suc n))))) < end_time
      \<and> 0 \<le> d * ?b ^ Suc n"
      by blast
    then show "\<exists>e.
      fst (transform_ssl_error env args (attempt_state env args ?b (d * ?b) s2 n)) = Raise e
      \<and> exc_type e = K
      \<and> env_now env (world (snd (transform_ssl_error env args
            (attempt_state env args ?b (d * ?b) s2 n)))) < end_time
      \<and> 0 \<le> d * ?b * ?b ^ n"
      by (simp only: shiftS power_Suc mult.assoc)
  qed
  have last: "fst (transform_ssl_error env args (attempt_state env args ?b (d * ?b) s2 N)) = Return v"
    using Suc.prems(2) by (simp only: shiftS)
  have "retry_while self env args (d * ?b) end_time s2 =
        Some (Return v, snd (transform_ssl_error env args
                               (attempt_state env args ?b (d * ?b) s2 N)))"
    using fails last by (rule Suc.IH)
  then show ?case
    by (simp only: step shiftS)
qed

section \<open>The error the handler catches\<close>

lemma transform_Raise:
  "env_func env args (world s) = (Raise e, w) \<Longrightarrow>
   transform_ssl_error env args s =
     (Raise (ssl_transformed e), \<lparr>world = w, trace = trace s @ [Called]\<rparr>)"
  by (auto simp: transform_ssl_error_def ssl_transformed_def run_updates Let_def)

lemma ssl_transformed_RateLimit:
  "isinstance (ssl_transformed e) RateLimitReachedError = isinstance e RateLimitReachedError"
proof (cases "isinstance e SSLError \<and> sublist TRANSIENT_SSL_ERROR (exc_str e)")
  case True
  then have "\<not> isinstance e RateLimitReachedError"
    using isinstance_RateLimit_not_SSLError by blast
  moreover have "\<not> isinstance (e\<lparr>exc_type := TransientSSLError\<rparr>) RateLimitReachedError"
    by (simp add: isinstance_def issubclass_def)
  ultimately show ?thesis
    using True by (simp add: ssl_transformed_def)
next
  case False
  then show ?thesis by (auto simp: ssl_transformed_def)
qed

lemma ssl_transformed_Exception:
  "isinstance (ssl_transformed e) Exception = isinstance e Exception"
proof (cases "isinstance e SSLError \<and> sublist TRANSIENT_SSL_ERROR (exc_str e)")
  case True
  then have "isinstance e Exception"
    using isinstance_SSLError_Exception by blast
  moreover have "isinstance (e\<lparr>exc_type := TransientSSLError\<rparr>) Exception"
    by (simp add: isinstance_def issubclass_def)
  ultimately show ?thesis
    using True by (simp add: ssl_transformed_def)
next
  case False
  then show ?thesis by (auto simp: ssl_transformed_def)
qed

lemma ssl_transformed_plain:
  "\<not> isinstance e SSLError \<Longrightarrow> ssl_transformed e = e"
  by (simp add: ssl_transformed_def)

section \<open>Turns of the loop with their results\<close>

lemma turn_Return:
  "env_func env args (world s) = (Return v, w) \<Longrightarrow>
   retry_while self env args d end_time s =
     Some (Return v, \<lparr>world = w, trace = trace s @ [Called]\<rparr>)"
  by (simp add: while_Return transform_Return run_updates)

lemma turn_RateLimit:
  assumes "env_func env args (world s) = (Raise e, w1)"
    and "isinstance e RateLimitReachedError" and "0 \<le> retry_after e"
  shows "retry_while self env args d end_time s =
     retry_while self env args (retry_delay self)
       (env_now env (env_sleep env (retry_after e) w1) + (retry_after e + timeout self))
       \<lparr>world = env_sleep env (retry_after e) w1,
        trace = trace s @ [Called, Slept (retry_after e)]\<rparr>"
proof -
  have t: "transform_ssl_error env args s =
             (Raise e, s\<lparr>world := w1, trace := trace s @ [Called]\<rparr>)"
    using assms(1,2) by (simp add: transform_Raise_plain isinstance_RateLimit_not_SSLError)
  show ?thesis
    by (simp add: while_RateLimit [OF t assms(2,3)] run_updates)
qed

lemma turn_RateLimit_negative:
  assumes "env_func env args (world s) = (Raise e, w1)"
    and "isinstance e RateLimitReachedError" and "retry_after e < 0"
  shows "retry_while self env args d end_time s =
     Some (Raise sleep_error, \<lparr>world = w1, trace = trace s @ [Called]\<rparr>)"
proof -
  have t: "transform_ssl_error env args s =
             (Raise e, \<lparr>world = w1, trace = trace s @ [Called]\<rparr>)"
    using assms(1,2)
    by (simp add: transform_Raise ssl_transformed_plain isinstance_RateLimit_not_SSLError)
  show ?thesis
    using assms(2,3)
    by (subst retry_while.simps) (simp add: t isinstance_RateLimit_Exception time_sleep_def)
qed

lemma turn_deadline:
  assumes "env_func env args (world s) = (Raise e, w1)"
    and "\<not> isinstance e RateLimitReachedError" and "end_time \<le> env_now env w1"
  shows "retry_while self env args d end_time s =
     Some (Raise (ssl_transformed e), \<lparr>world = w1, trace = trace s @ [Called]\<rparr>)"
proof -
  have t: "transform_ssl_error env args s =
             (Raise (ssl_transformed e), \<lparr>world = w1, trace = trace s @ [Called]\<rparr>)"
    using assms(1) by (rule transform_Raise)
  have nrl: "\<not> isinstance (ssl_transformed e) RateLimitReachedError"
    using assms(2) by (simp add: ssl_transformed_RateLimit)
  show ?thesis
    using while_deadline [OF t nrl] assms(3) by simp
qed

lemma turn_not_retryable:
  assumes "env_func env args (world s) = (Raise e, w1)"
    and "\<not> isinstance e RateLimitReachedError"
    and "exc_type (ssl_transformed e) \<notin> set (retry_exceptions self)"
  shows "retry_while self env args d end_time s =
     Some (Raise (ssl_transformed e), \<lparr>world = w1, trace = trace s @ [Called]\<rparr>)"
proof -
  have t: "transform_ssl_error env args s =
             (Raise (ssl_transformed e), \<lparr>world = w1, trace = trace s @ [Called]\<rparr>)"
    using assms(1) by (rule transform_Raise)
  have nrl: "\<not> isinstance (ssl_transformed e) RateLimitReachedError"
    using assms(2) by (simp add: ssl_transformed_RateLimit)
  have nsr: "\<not> should_retry self (ssl_transformed e)"
    using assms(3) by (simp add: should_retry_def)
  show ?thesis
    using while_not_retryable [OF t nrl nsr] .
qed

lemma turn_backoff:
  assumes "env_func env args (world s) = (Raise e, w1)"
    and "isinstance e Exception" and "\<not> isinstance e RateLimitReachedError"
    and "exc_type (ssl_transformed e) \<in> set (retry_exceptions self)"
    and "env_now env w1 < end_time" and "0 \<le> d"
  shows "retry_while self env args d end_time s =
     retry_while self env args (d * backoff self) end_time
       \<lparr>world = env_sleep env d w1, trace = trace s @ [Called, Slept d]\<rparr>"
proof -
  have t: "transform_ssl_error env args s =
             (Raise (ssl_transformed e), \<lparr>world = w1, trace = trace s @ [Called]\<rparr>)"
    using assms(1) by (rule transform_Raise)
  have ex: "isinstance (ssl_transformed e) Exception"
    using assms(2) by (simp add: ssl_transformed_Exception)
  have nrl: "\<not> isinstance (ssl_transformed e) RateLimitReachedError"
    using assms(3) by (simp add: ssl_transformed_RateLimit)
  have sr: "should_retry self (ssl_transformed e)"
    using assms(4) by (simp add: should_retry_def)
  show ?thesis
    using while_backoff [OF t ex nrl _ sr assms(6), of end_time] assms(5)
    by (simp add: run_updates)
qed

section \<open>Runs of rate-limit errors\<close>

lemma while_rate_limits_run:
  fixes env :: "('w, 'args, 'r) env"
  shows "(\<forall>i<length es.
            fst (env_func env args (after_rate_limits env args w (take i es))) = Raise (es ! i)
            \<and> isinstance (es ! i) RateLimitReachedError \<and> 0 \<le> retry_after (es ! i)) \<Longrightarrow>
         env_func env args (after_rate_limits env args w es) = (Return v, w') \<Longrightarrow>
         retry_while self env args d end_time \<lparr>world = w, trace = tr\<rparr> =
           Some (Return v,
                 \<lparr>world = w',
                  trace = tr @ concat (map (\<lambda>e. [Called, Slept (retry_after e)]) es) @ [Called]\<rparr>)"
proof (induction es arbitrary: w tr d end_time)
  case Nil
  then show ?case
    by (simp add: turn_Return)
next
  case (Cons e es)
  from Cons.prems(1) have "fst (env_func env args (after_rate_limits env args w (take 0 (e # es))))
        = Raise ((e # es) ! 0)
      \<and> isinstance ((e # es) ! 0) RateLimitReachedError \<and> 0 \<le> retry_after ((e # es) ! 0)"
    by blast
  then have h: "fst (env_func env args w) = Raise e" "isinstance e RateLimitReachedError"
      "0 \<le> retry_after e"
    by simp_all
  define w1 where "w1 = snd (env_func env args w)"
  define w2 where "w2 = env_sleep env (retry_after e) w1"
  have f: "env_func env args (world \<lparr>world = w, trace = tr\<rparr>) = (Raise e, w1)"
    using h(1) by (simp add: w1_def prod_eq_iff)
  have step: "retry_while self env args d end_time \<lparr>world = w, trace = tr\<rparr> =
      retry_while self env args (retry_delay self)
        (env_now env w2 + (retry_after e + timeout self))
        \<lparr>world = w2, trace = tr @ [Called, Slept (retry_after e)]\<rparr>"
    using turn_RateLimit [OF f h(2,3)] by (simp add: w2_def)
  have rest: "\<forall>i<length es.
      fst (env_func env args (after_rate_limits env args w2 (take i es))) = Raise (es ! i)
      \<and> isinstance (es ! i) RateLimitReachedError \<and> 0 \<le> retry_after (es ! i)"
  proof (intro allI impI)
    fix i assume "i < length es"
    then have "Suc i < length (e # es)" by simp
    with Cons.prems(1) have
      "fst (env_func env args (after_rate_limits env args w (take (Suc i) (e # es))))
         = Raise ((e # es) ! Suc i)
       \<and> isinstance ((e # es) ! Suc i) RateLimitReachedError
       \<and> 0 \<le> retry_after ((e # es) ! Suc i)"
      by blast
    then show "fst (env_func env args (after_rate_limits env args w2 (take i es))) = Raise (es ! i)
      \<and> isinstance (es ! i) RateLimitReachedError \<and> 0 \<le> retry_after (es ! i)"
      by (simp add: w1_def w2_def)
  qed
  have last: "env_func env args (after_rate_limits env args w2 es) = (Return v, w')"
    using Cons.prems(2) by (simp add: w1_def w2_def)
  from Cons.IH [OF rest last]
  have "retry_while self env args (retry_delay self)
          (env_now env w2 + (retry_after e + timeout self))
          \<lparr>world = w2, trace = tr @ [Called, Slept (retry_after e)]\<rparr> =
        Some (Return v,
          \<lparr>world = w',
           trace = (tr @ [Called, Slept (retry_after e)])
                   @ concat (map (\<lambda>e. [Called, Slept (retry_after e)]) es) @ [Called]\<rparr>)" .
  with step show ?case by simp
qed

section \<open>The claims\<close>

subsection \<open>C1: the back-off schedule\<close>

text \<open>
  Claim C1, as the code has it.  Let \<open>K\<close> be one of the configured retryable classes
  that is a subclass of \<^verbatim>\<open>Exception\<close> and neither the rate-limit class nor a subclass
  of it, and let \<open>N \<ge> 0\<close>.  If on each of its first \<open>N\<close> calls the callable fails
  with an error that the handler catches with exact class \<open>K\<close>, the clock read
  after each of these failures is before the deadline (the start plus \<^verbatim>\<open>timeout\<close>),
  the lengths \<open>initial_delay * backoff ^ (n - 1)\<close> are not negative, and call
  \<open>N + 1\<close> returns a value, then the wrapped callable returns that value, the callable
  has been called again exactly \<open>N\<close> times, and the \<open>n\<close>-th sleep lasts exactly
  \<open>initial_delay * backoff ^ (n - 1)\<close> seconds.  The rate-limit class, although one
  of the default retryable classes, follows the rate-limit branch instead and sleeps
  \<^verbatim>\<open>retry_after\<close>.
\<close>

theorem C1_backoff_schedule:
  fixes env :: "('w, 'args, 'r) env"
  assumes "K \<in> set (retry_exceptions self)"
    and "issubclass K Exception"
    and "\<not> issubclass K RateLimitReachedError"
    and "\<forall>n<N. \<exists>e.
           fst (transform_ssl_error env args
                  (attempt_state env args (backoff self) (retry_delay self)
                     \<lparr>world = w, trace = []\<rparr> n)) = Raise e
           \<and> exc_type e = K
           \<and> env_now env (world (snd (transform_ssl_error env args
                  (attempt_state env args (backoff self) (retry_delay self)
                     \<lparr>world = w, trace = []\<rparr> n)))) < env_now env w + timeout self
           \<and> 0 \<le> retry_delay self * backoff self ^ n"
    and "fst (transform_ssl_error env args
                (attempt_state env args (backoff self) (retry_delay self)
                   \<lparr>world = w, trace = []\<rparr> N)) = Return v"
  shows "\<exists>w'. retry_loop self env args \<lparr>world = w, trace = []\<rparr> =
           Some (Return v,
                 \<lparr>world = w',
                  trace = concat (map (\<lambda>n. [Called, Slept (retry_delay self * backoff self ^ n)])
                                   [0..<N]) @ [Called]\<rparr>)"
proof -
  let ?s = "\<lparr>world = w, trace = []\<rparr> :: 'w run"
  let ?sN = "attempt_state env args (backoff self) (retry_delay self) ?s N"
  let ?fin = "snd (transform_ssl_error env args ?sN)"
  have run: "retry_while self env args (retry_delay self) (env_now env w + timeout self) ?s =
               Some (Return v, ?fin)"
    using assms(4,5) by (intro while_backoff_run [OF assms(1-3)]) simp_all
  have "trace ?fin = trace ?sN @ [Called]"
    by (rule transform_trace [of env args ?sN "fst (transform_ssl_error env args ?sN)"]) simp
  then have tr: "trace ?fin =
      concat (map (\<lambda>n. [Called, Slept (retry_delay self * backoff self ^ n)]) [0..<N]) @ [Called]"
    by (simp add: attempt_state_trace)
  have "?fin = \<lparr>world = world ?fin, trace = trace ?fin\<rparr>"
    by (cases ?fin) simp
  with tr have "?fin = \<lparr>world = world ?fin,
      trace = concat (map (\<lambda>n. [Called, Slept (retry_delay self * backoff self ^ n)]) [0..<N])
              @ [Called]\<rparr>"
    by simp
  with run have "retry_loop self env args ?s =
      Some (Return v, \<lparr>world = world ?fin,
        trace = concat (map (\<lambda>n. [Called, Slept (retry_delay self * backoff self ^ n)]) [0..<N])
                @ [Called]\<rparr>)"
    by (simp add: retry_loop_def)
  then show ?thesis by blast
qed

theorem C1_backoff_schedule_witness:
  "socket_error \<in> set (retry_exceptions (Retry_init None (Some 1) (Some 30) (Some 2)))
   \<and> issubclass socket_error Exception
   \<and> \<not> issubclass socket_error RateLimitReachedError
   \<and> fst (transform_ssl_error scripted_env (7::nat)
            \<lparr>world = (0, [(Raise (plain_error socket_error ''Connection reset by peer''), 3),
                          (Raise (plain_error socket_error ''Connection reset by peer''), 4)]),
             trace = []\<rparr>) =
       Raise (plain_error socket_error ''Connection reset by peer'')
   \<and> fst (transform_ssl_error scripted_env (7::nat)
            \<lparr>world = (4, [(Raise (plain_error socket_error ''Connection reset by peer''), 4)]),
             trace = [Called, Slept 1]\<rparr>) =
       Raise (plain_error socket_error ''Connection reset by peer'')
   \<and> exc_type (plain_error socket_error ''Connection reset by peer'') = socket_error
   \<and> (3::real) < 0 + 30 \<and> (8::real) < 0 + 30
   \<and> (0::real) \<le> 1 * 2 ^ 0 \<and> (0::real) \<le> 1 * 2 ^ 1
   \<and> fst (transform_ssl_error scripted_env (7::nat)
            \<lparr>world = (10, []), trace = [Called, Slept 1, Called, Slept 2]\<rparr>) = Return 7
   \<and> (\<exists>w'. retry_loop (Retry_init None (Some 1) (Some 30) (Some 2)) scripted_env (7::nat)
        \<lparr>world = (0, [(Raise (plain_error socket_error ''Connection reset by peer''), 3),
                      (Raise (plain_error socket_error ''Connection reset by peer''), 4)]),
         trace = []\<rparr> =
      Some (Return 7, \<lparr>world = w', trace = [Called, Slept 1, Called, Slept 2, Called]\<rparr>))"
proof -
  let ?cfg = "Retry_init None (Some 1) (Some 30) (Some 2)"
  let ?e = "plain_error socket_error ''Connection reset by peer''"
  let ?w = "(0, [(Raise ?e, 3), (Raise ?e, 4)]) :: nat scripted"
  let ?s0 = "\<lparr>world = ?w, trace = []\<rparr>"
  let ?s1 = "\<lparr>world = ((4, [(Raise ?e, 4)]) :: nat scripted), trace = [Called, Slept 1]\<rparr>"
  let ?s2 = "\<lparr>world = ((10, []) :: nat scripted), trace = [Called, Slept 1, Called, Slept 2]\<rparr>"
  have cfg: "retry_delay ?cfg = 1" "backoff ?cfg = 2" "timeout ?cfg = 30"
    by (simp_all add: Retry_init_def)
  have nssl: "\<not> isinstance ?e SSLError"
    by (simp add: plain_error_def isinstance_def issubclass_def)
  have t0: "transform_ssl_error scripted_env (7::nat) ?s0 =
              (Raise ?e, \<lparr>world = (3, [(Raise ?e, 4)]), trace = [Called]\<rparr>)"
    using nssl by (simp add: transform_ssl_error_def scripted_env_def scripted_func_def)
  have t1: "transform_ssl_error scripted_env (7::nat) ?s1 =
              (Raise ?e, \<lparr>world = (8, []), trace = [Called, Slept 1, Called]\<rparr>)"
    using nssl by (simp add: transform_ssl_error_def scripted_env_def scripted_func_def)
  have t2: "transform_ssl_error scripted_env (7::nat) ?s2 =
              (Return 7, \<lparr>world = (10, []), trace = [Called, Slept 1, Called, Slept 2, Called]\<rparr>)"
    by (simp add: transform_ssl_error_def scripted_env_def scripted_func_def)
  have sl: "env_sleep scripted_env 1 ((3, [(Raise ?e, 4)]) :: nat scripted) = (4, [(Raise ?e, 4)])"
    "env_sleep scripted_env 2 ((8, []) :: nat scripted) = (10, [])"
    by (simp_all add: scripted_env_def)
  have a0: "attempt_state scripted_env (7::nat) 2 1 ?s0 0 = ?s0"
    by simp
  have a1: "attempt_state scripted_env (7::nat) 2 1 ?s0 (Suc 0) = ?s1"
    by (simp add: t0 sl)
  have a2: "attempt_state scripted_env (7::nat) 2 1 ?s0 (Suc (Suc 0)) = ?s2"
    by (simp add: t0 t1 sl)
  have now: "env_now scripted_env ?w = 0"
    "env_now scripted_env ((3, [(Raise ?e, 4)]) :: nat scripted) = 3"
    "env_now scripted_env ((8, []) :: nat scripted) = 8"
    by (simp_all add: scripted_env_def)
  have k1: "socket_error \<in> set (retry_exceptions ?cfg)"
    by (simp add: Retry_init_def RETRY_EXCEPTIONS_def)
  have k2: "issubclass socket_error Exception"
    by (simp add: issubclass_def)
  have k3: "\<not> issubclass socket_error RateLimitReachedError"
    by (simp add: issubclass_def)
  have ty: "exc_type ?e = socket_error"
    by (simp add: plain_error_def)
  have fails: "\<forall>n<Suc (Suc 0). \<exists>e.
           fst (transform_ssl_error scripted_env (7::nat)
                  (attempt_state scripted_env 7 (backoff ?cfg) (retry_delay ?cfg) ?s0 n)) = Raise e
           \<and> exc_type e = socket_error
           \<and> env_now scripted_env (world (snd (transform_ssl_error scripted_env 7
                  (attempt_state scripted_env 7 (backoff ?cfg) (retry_delay ?cfg) ?s0 n))))
               < env_now scripted_env ?w + timeout ?cfg
           \<and> 0 \<le> retry_delay ?cfg * backoff ?cfg ^ n"
  proof (intro allI impI)
    fix n :: nat assume "n < Suc (Suc 0)"
    then consider "n = 0" | "n = Suc 0" by arith
    then show "\<exists>e.
           fst (transform_ssl_error scripted_env (7::nat)
                  (attempt_state scripted_env 7 (backoff ?cfg) (retry_delay ?cfg) ?s0 n)) = Raise e
           \<and> exc_type e = socket_error
           \<and> env_now scripted_env (world (snd (transform_ssl_error scripted_env 7
                  (attempt_state scripted_env 7 (backoff ?cfg) (retry_delay ?cfg) ?s0 n))))
               < env_now scripted_env ?w + timeout ?cfg
           \<and> 0 \<le> retry_delay ?cfg * backoff ?cfg ^ n"
    proof cases
      case 1
      show ?thesis
        unfolding 1 cfg a0 by (simp add: t0 ty now)
    next
      case 2
      show ?thesis
        unfolding 2 cfg a1 by (simp add: t1 ty now)
    qed
  qed
  have last: "fst (transform_ssl_error scripted_env (7::nat)
                (attempt_state scripted_env 7 (backoff ?cfg) (retry_delay ?cfg) ?s0
                   (Suc (Suc 0)))) = Return 7"
    unfolding cfg a2 by (simp add: t2)
  have sched: "concat (map (\<lambda>n. [Called, Slept (retry_delay ?cfg * backoff ?cfg ^ n)])
                 [0..<Suc (Suc 0)]) @ [Called] = [Called, Slept 1, Called, Slept 2, Called]"
    by (simp add: cfg)
  have res: "\<exists>w'. retry_loop ?cfg scripted_env (7::nat) ?s0 =
      Some (Return 7, \<lparr>world = w', trace = [Called, Slept 1, Called, Slept 2, Called]\<rparr>)"
    using C1_backoff_schedule [OF k1 k2 k3 fails last] unfolding sched .
  have misc: "(3::real) < 0 + 30" "(8::real) < 0 + 30" "(0::real) \<le> 1 * 2 ^ 0"
    "(0::real) \<le> 1 * 2 ^ 1"
    by simp_all
  have f0: "fst (transform_ssl_error scripted_env (7::nat) ?s0) = Raise ?e"
    by (simp add: t0)
  have f1: "fst (transform_ssl_error scripted_env (7::nat) ?s1) = Raise ?e"
    by (simp add: t1)
  have f2: "fst (transform_ssl_error scripted_env (7::nat) ?s2) = Return 7"
    by (simp add: t2)
  from k1 k2 k3 f0 f1 ty misc f2 res show ?thesis by blast
qed

theorem C1_rate_limit_kind_counterexample:
  "RateLimitReachedError \<in> set (retry_exceptions (Retry_init None None None None))
   \<and> retry_delay (Retry_init None None None None) * backoff (Retry_init None None None None) ^ 0 = 1
   \<and> timeout (Retry_init None None None None) = 30
   \<and> retry_loop (Retry_init None None None None) scripted_env (7::nat)
       \<lparr>world = (0, [(Raise (rate_limited RateLimitReachedError 5), 2)]), trace = []\<rparr> =
     Some (Return 7, \<lparr>world = (7, []), trace = [Called, Slept 5, Called]\<rparr>)
   \<and> Slept 5 \<noteq> Slept (retry_delay (Retry_init None None None None)
                           * backoff (Retry_init None None None None) ^ 0)"
proof -
  let ?cfg = "Retry_init None None None None"
  have a: "RateLimitReachedError \<in> set (retry_exceptions ?cfg)"
    by (simp add: Retry_init_def RETRY_EXCEPTIONS_def)
  have b: "retry_delay ?cfg * backoff ?cfg ^ 0 = 1" "timeout ?cfg = 30"
    by (simp_all add: Retry_init_def DEFAULT_DELAY_def DEFAULT_TIMEOUT_def)
  have c: "retry_loop ?cfg scripted_env (7::nat)
       \<lparr>world = (0, [(Raise (rate_limited RateLimitReachedError 5), 2)]), trace = []\<rparr> =
     Some (Return 7, \<lparr>world = (7, []), trace = [Called, Slept 5, Called]\<rparr>)"
    by (simp add: retry_loop_def retry_while.simps Retry_init_def scripted_env_def
        scripted_func_def rate_limited_def transform_ssl_error_def
        time_sleep_def isinstance_def issubclass_def DEFAULT_TIMEOUT_def DEFAULT_DELAY_def
        DEFAULT_BACKOFF_def RETRY_EXCEPTIONS_def should_retry_def)
  have d: "Slept 5 \<noteq> Slept (retry_delay ?cfg * backoff ?cfg ^ 0)"
    by (simp add: Retry_init_def DEFAULT_DELAY_def DEFAULT_BACKOFF_def)
  from a b c d show ?thesis by blast
qed

subsection \<open>C2: the rate-limit branch\<close>

text \<open>
  Claim C2, as the code has it.  Whenever the callable raises a rate-limit error
  carrying a \<^verbatim>\<open>retry_after\<close> that is not negative, whatever \<^verbatim>\<open>current_delay\<close> and the
  deadline \<^verbatim>\<open>end\<close> are at that moment, the loop sleeps exactly \<^verbatim>\<open>retry_after\<close> seconds and
  goes on with \<^verbatim>\<open>current_delay\<close> reset to the initial delay and the deadline set to the
  clock read after the sleep plus \<^verbatim>\<open>retry_after + timeout\<close>; the back-off delay is not
  multiplied.  Below, \<open>w2\<close> is the world after the sleep and \<open>new_end\<close> the new
  deadline.  The run goes on as the loop does from that state; if the next call
  returns, its value is returned after the one sleep; if the next call fails with
  a retryable error before \<open>new_end\<close>, the sleep that follows lasts the initial
  delay; if it fails at or after \<open>new_end\<close>, the error caught is raised.  A negative
  \<^verbatim>\<open>retry_after\<close> is refused by \<^verbatim>\<open>time.sleep\<close>, whose \<^verbatim>\<open>ValueError\<close> ends the loop.
\<close>

theorem C2_rate_limit_branch:
  assumes "env_func env args (world s) = (Raise e, w1)"
    and "isinstance e RateLimitReachedError"
    and "0 \<le> retry_after e"
    and "w2 = env_sleep env (retry_after e) w1"
    and "new_end = env_now env w2 + (retry_after e + timeout self)"
  shows "retry_while self env args current_delay end_time s =
           retry_while self env args (retry_delay self) new_end
             \<lparr>world = w2, trace = trace s @ [Called, Slept (retry_after e)]\<rparr>
       \<and> (env_func env args w2 = (Return v, w3) \<longrightarrow>
            retry_while self env args current_delay end_time s =
              Some (Return v,
                    \<lparr>world = w3, trace = trace s @ [Called, Slept (retry_after e), Called]\<rparr>))
       \<and> (env_func env args w2 = (Raise e2, w3) \<and> isinstance e2 Exception
            \<and> \<not> isinstance e2 RateLimitReachedError
            \<and> exc_type (ssl_transformed e2) \<in> set (retry_exceptions self)
            \<and> env_now env w3 < new_end \<and> 0 \<le> retry_delay self
            \<and> env_func env args (env_sleep env (retry_delay self) w3) = (Return v, w5) \<longrightarrow>
            retry_while self env args current_delay end_time s =
              Some (Return v,
                    \<lparr>world = w5,
                     trace = trace s @ [Called, Slept (retry_after e), Called,
                                        Slept (retry_delay self), Called]\<rparr>))
       \<and> (env_func env args w2 = (Raise e2, w3) \<and> \<not> isinstance e2 RateLimitReachedError
            \<and> new_end \<le> env_now env w3 \<longrightarrow>
            retry_while self env args current_delay end_time s =
              Some (Raise (ssl_transformed e2),
                    \<lparr>world = w3, trace = trace s @ [Called, Slept (retry_after e), Called]\<rparr>))"
proof -
  let ?s2 = "\<lparr>world = w2, trace = trace s @ [Called, Slept (retry_after e)]\<rparr>"
  have step: "retry_while self env args current_delay end_time s =
                retry_while self env args (retry_delay self) new_end ?s2"
    using turn_RateLimit [OF assms(1-3)] by (simp add: assms(4,5))
  have ret: "retry_while self env args current_delay end_time s =
              Some (Return v,
                    \<lparr>world = w3, trace = trace s @ [Called, Slept (retry_after e), Called]\<rparr>)"
    if "env_func env args w2 = (Return v, w3)"
    using that by (simp add: step turn_Return)
  have again: "retry_while self env args current_delay end_time s =
              Some (Return v,
                    \<lparr>world = w5,
                     trace = trace s @ [Called, Slept (retry_after e), Called,
                                        Slept (retry_delay self), Called]\<rparr>)"
    if h: "env_func env args w2 = (Raise e2, w3)" "isinstance e2 Exception"
      "\<not> isinstance e2 RateLimitReachedError"
      "exc_type (ssl_transformed e2) \<in> set (retry_exceptions self)"
      "env_now env w3 < new_end" "0 \<le> retry_delay self"
      "env_func env args (env_sleep env (retry_delay self) w3) = (Return v, w5)"
  proof -
    have f2: "env_func env args (world ?s2) = (Raise e2, w3)"
      using h(1) by simp
    have "retry_while self env args (retry_delay self) new_end ?s2 =
            retry_while self env args (retry_delay self * backoff self) new_end
              \<lparr>world = env_sleep env (retry_delay self) w3,
               trace = trace ?s2 @ [Called, Slept (retry_delay self)]\<rparr>"
      using f2 h(2) h(3) h(4) h(5) h(6) by (rule turn_backoff)
    also have "\<dots> = Some (Return v,
                    \<lparr>world = w5,
                     trace = trace s @ [Called, Slept (retry_after e), Called,
                                        Slept (retry_delay self), Called]\<rparr>)"
      using h(7) by (simp add: turn_Return)
    finally show ?thesis
      by (simp only: step)
  qed
  have late: "retry_while self env args current_delay end_time s =
              Some (Raise (ssl_transformed e2),
                    \<lparr>world = w3, trace = trace s @ [Called, Slept (retry_after e), Called]\<rparr>)"
    if h: "env_func env args w2 = (Raise e2, w3)" "\<not> isinstance e2 RateLimitReachedError"
      "new_end \<le> env_now env w3"
  proof -
    have f2: "env_func env args (world ?s2) = (Raise e2, w3)"
      using h(1) by simp
    from turn_deadline [OF f2 h(2) h(3)] show ?thesis
      by (simp add: step)
  qed
  from step ret again late show ?thesis by blast
qed

theorem C2_rate_limit_branch_witness:
  "env_func scripted_env (7::nat)
     (world \<lparr>world = (0, [(Raise (rate_limited RateLimitReachedError 5), 40)]), trace = []\<rparr>) =
     (Raise (rate_limited RateLimitReachedError 5), (40, []))
   \<and> isinstance (rate_limited RateLimitReachedError 5) RateLimitReachedError
   \<and> 0 \<le> retry_after (rate_limited RateLimitReachedError 5)
   \<and> ((45, []) :: nat scripted) =
       env_sleep scripted_env (retry_after (rate_limited RateLimitReachedError 5)) (40, [])
   \<and> (80::real) = env_now scripted_env ((45, []) :: nat scripted)
        + (retry_after (rate_limited RateLimitReachedError 5)
           + timeout (Retry_init None (Some 3) (Some 30) (Some 2)))
   \<and> env_func scripted_env (7::nat) (45, []) = (Return 7, (45, []))
   \<and> retry_while (Retry_init None (Some 3) (Some 30) (Some 2)) scripted_env (7::nat) 12 30
       \<lparr>world = (0, [(Raise (rate_limited RateLimitReachedError 5), 40)]), trace = []\<rparr> =
     Some (Return 7, \<lparr>world = (45, []), trace = [Called, Slept 5, Called]\<rparr>)
   \<and> env_func scripted_env (7::nat)
       (45, [(Raise (plain_error socket_error ''Connection reset by peer''), 34)]) =
     (Raise (plain_error socket_error ''Connection reset by peer''), (79, []))
   \<and> isinstance (plain_error socket_error ''Connection reset by peer'') Exception
   \<and> \<not> isinstance (plain_error socket_error ''Connection reset by peer'') RateLimitReachedError
   \<and> exc_type (ssl_transformed (plain_error socket_error ''Connection reset by peer''))
        \<in> set (retry_exceptions (Retry_init None (Some 3) (Some 30) (Some 2)))
   \<and> env_now scripted_env ((79, []) :: nat scripted) < (80::real)
   \<and> 0 \<le> retry_delay (Retry_init None (Some 3) (Some 30) (Some 2))
   \<and> env_func scripted_env (7::nat)
       (env_sleep scripted_env (retry_delay (Retry_init None (Some 3) (Some 30) (Some 2)))
          (79, [])) = (Return 7, (82, []))
   \<and> retry_while (Retry_init None (Some 3) (Some 30) (Some 2)) scripted_env (7::nat) 12 30
       \<lparr>world = (0, [(Raise (rate_limited RateLimitReachedError 5), 40),
                     (Raise (plain_error socket_error ''Connection reset by peer''), 34)]),
        trace = []\<rparr> =
     Some (Return 7, \<lparr>world = (82, []), trace = [Called, Slept 5, Called, Slept 3, Called]\<rparr>)
   \<and> env_func scripted_env (7::nat)
       (45, [(Raise (plain_error socket_error ''Connection reset by peer''), 35)]) =
     (Raise (plain_error socket_error ''Connection reset by peer''), (80, []))
   \<and> (80::real) \<le> env_now scripted_env ((80, []) :: nat scripted)
   \<and> retry_while (Retry_init None (Some 3) (Some 30) (Some 2)) scripted_env (7::nat) 12 30
       \<lparr>world = (0, [(Raise (rate_limited RateLimitReachedError 5), 40),
                     (Raise (plain_error socket_error ''Connection reset by peer''), 35)]),
        trace = []\<rparr> =
     Some (Raise (plain_error socket_error ''Connection reset by peer''),
           \<lparr>world = (80, []), trace = [Called, Slept 5, Called]\<rparr>)"
proof -
  let ?cfg = "Retry_init None (Some 3) (Some 30) (Some 2)"
  let ?rl = "rate_limited RateLimitReachedError 5"
  let ?se = "plain_error socket_error ''Connection reset by peer''"
  have cfg: "retry_delay ?cfg = 3" "timeout ?cfg = 30" "backoff ?cfg = 2"
    by (simp_all add: Retry_init_def)
  have ra: "retry_after ?rl = 5"
    by (simp add: rate_limited_def)
  have h2: "isinstance ?rl RateLimitReachedError"
    by (simp add: rate_limited_def isinstance_def issubclass_def)
  have h3: "0 \<le> retry_after ?rl"
    by (simp add: ra)
  have se: "isinstance ?se Exception" "\<not> isinstance ?se RateLimitReachedError"
    "\<not> isinstance ?se SSLError"
    by (simp_all add: plain_error_def isinstance_def issubclass_def)
  have tse: "ssl_transformed ?se = ?se"
    using se(3) by (rule ssl_transformed_plain)
  have "exc_type ?se \<in> set (retry_exceptions ?cfg)"
    by (simp add: Retry_init_def RETRY_EXCEPTIONS_def plain_error_def)
  then have mem: "exc_type (ssl_transformed ?se) \<in> set (retry_exceptions ?cfg)"
    by (simp only: tse)
  have nn: "0 \<le> retry_delay ?cfg"
    by (simp add: cfg)
  \<comment> \<open>the next call returns\<close>
  have b1: "env_func scripted_env (7::nat)
              (world \<lparr>world = (0, [(Raise ?rl, 40)]), trace = []\<rparr>) = (Raise ?rl, (40, []))"
    by (simp add: scripted_env_def scripted_func_def)
  have b4: "((45, []) :: nat scripted) = env_sleep scripted_env (retry_after ?rl) (40, [])"
    by (simp add: scripted_env_def ra)
  have b5: "(80::real) = env_now scripted_env ((45, []) :: nat scripted)
              + (retry_after ?rl + timeout ?cfg)"
    by (simp add: scripted_env_def ra cfg)
  have b6: "env_func scripted_env (7::nat) (45, []) = (Return 7, (45, []))"
    by (simp add: scripted_env_def scripted_func_def)
  have b: "retry_while ?cfg scripted_env (7::nat) 12 30
             \<lparr>world = (0, [(Raise ?rl, 40)]), trace = []\<rparr> =
           Some (Return 7, \<lparr>world = (45, []), trace = [Called, Slept 5, Called]\<rparr>)"
    using C2_rate_limit_branch [OF b1 h2 h3 b4 b5, where current_delay = 12 and end_time = 30 and v = 7
        and ?w3.0 = "(45, [])",
        THEN conjunct2, THEN conjunct1] b6
    by (simp add: ra)
  \<comment> \<open>the next call fails before the new deadline\<close>
  have c1: "env_func scripted_env (7::nat)
              (world \<lparr>world = (0, [(Raise ?rl, 40), (Raise ?se, 34)]), trace = []\<rparr>) =
            (Raise ?rl, (40, [(Raise ?se, 34)]))"
    by (simp add: scripted_env_def scripted_func_def)
  have c4: "((45, [(Raise ?se, 34)]) :: nat scripted) =
              env_sleep scripted_env (retry_after ?rl) (40, [(Raise ?se, 34)])"
    by (simp add: scripted_env_def ra)
  have c5: "(80::real) = env_now scripted_env ((45, [(Raise ?se, 34)]) :: nat scripted)
              + (retry_after ?rl + timeout ?cfg)"
    by (simp add: scripted_env_def ra cfg)
  have c6: "env_func scripted_env (7::nat) (45, [(Raise ?se, 34)]) = (Raise ?se, (79, []))"
    by (simp add: scripted_env_def scripted_func_def)
  have c7: "env_now scripted_env ((79, []) :: nat scripted) < (80::real)"
    by (simp add: scripted_env_def)
  have c8: "env_func scripted_env (7::nat) (env_sleep scripted_env (retry_delay ?cfg) (79, []))
              = (Return 7, (82, []))"
    by (simp add: scripted_env_def scripted_func_def cfg)
  have c: "retry_while ?cfg scripted_env (7::nat) 12 30
             \<lparr>world = (0, [(Raise ?rl, 40), (Raise ?se, 34)]), trace = []\<rparr> =
           Some (Return 7, \<lparr>world = (82, []), trace = [Called, Slept 5, Called, Slept 3, Called]\<rparr>)"
    using C2_rate_limit_branch [OF c1 h2 h3 c4 c5, where current_delay = 12 and end_time = 30 and v = 7
        and ?w3.0 = "(79, [])" and ?e2.0 = ?se and ?w5.0 = "(82, [])",
        THEN conjunct2, THEN conjunct2, THEN conjunct1]
      c6 se(1,2) mem c7 nn c8
    by (simp add: ra cfg)
  \<comment> \<open>the next call fails at the new deadline\<close>
  have d1: "env_func scripted_env (7::nat)
              (world \<lparr>world = (0, [(Raise ?rl, 40), (Raise ?se, 35)]), trace = []\<rparr>) =
            (Raise ?rl, (40, [(Raise ?se, 35)]))"
    by (simp add: scripted_env_def scripted_func_def)
  have d4: "((45, [(Raise ?se, 35)]) :: nat scripted) =
              env_sleep scripted_env (retry_after ?rl) (40, [(Raise ?se, 35)])"
    by (simp add: scripted_env_def ra)
  have d5: "(80::real) = env_now scripted_env ((45, [(Raise ?se, 35)]) :: nat scripted)
              + (retry_after ?rl + timeout ?cfg)"
    by (simp add: scripted_env_def ra cfg)
  have d6: "env_func scripted_env (7::nat) (45, [(Raise ?se, 35)]) = (Raise ?se, (80, []))"
    by (simp add: scripted_env_def scripted_func_def)
  have d7: "(80::real) \<le> env_now scripted_env ((80, []) :: nat scripted)"
    by (simp add: scripted_env_def)
  have d: "retry_while ?cfg scripted_env (7::nat) 12 30
             \<lparr>world = (0, [(Raise ?rl, 40), (Raise ?se, 35)]), trace = []\<rparr> =
           Some (Raise ?se, \<lparr>world = (80, []), trace = [Called, Slept 5, Called]\<rparr>)"
    using C2_rate_limit_branch [OF d1 h2 h3 d4 d5, where current_delay = 12 and end_time = 30
        and ?w3.0 = "(80, [])" and ?e2.0 = ?se,
        THEN conjunct2, THEN conjunct2, THEN conjunct2]
      d6 se(2) d7
    by (simp add: ra tse)
  from b1 h2 h3 b4 b5 b6 b c6 se(1,2) mem c7 nn c8 c d6 d7 d show ?thesis
    by blast
qed

theorem C2_negative_retry_after_counterexample:
  "isinstance (rate_limited RateLimitReachedError (-1)) RateLimitReachedError
   \<and> retry_after (rate_limited RateLimitReachedError (-1)) = -1
   \<and> retry_loop (Retry_init None None None None) scripted_env (7::nat)
       \<lparr>world = (0, [(Raise (rate_limited RateLimitReachedError (-1)), 2)]), trace = []\<rparr> =
     Some (Raise sleep_error, \<lparr>world = (2, []), trace = [Called]\<rparr>)"
proof -
  have a: "isinstance (rate_limited RateLimitReachedError (-1)) RateLimitReachedError"
    by (simp add: rate_limited_def isinstance_def issubclass_def)
  have b: "retry_after (rate_limited RateLimitReachedError (-1)) = -1"
    by (simp add: rate_limited_def)
  have c: "retry_loop (Retry_init None None None None) scripted_env (7::nat)
       \<lparr>world = (0, [(Raise (rate_limited RateLimitReachedError (-1)), 2)]), trace = []\<rparr> =
     Some (Raise sleep_error, \<lparr>world = (2, []), trace = [Called]\<rparr>)"
    by (simp add: retry_loop_def retry_while.simps Retry_init_def scripted_env_def
        scripted_func_def rate_limited_def transform_ssl_error_def
        time_sleep_def isinstance_def issubclass_def DEFAULT_TIMEOUT_def DEFAULT_DELAY_def
        DEFAULT_BACKOFF_def RETRY_EXCEPTIONS_def should_retry_def)
  from a b c show ?thesis by blast
qed

subsection \<open>C3: a rate-limit error never reaches the caller\<close>

text \<open>
  Claim C3, as the code has it.  A rate-limit error is never passed on to the
  caller.  First, whenever the wrapped callable ends by raising, the exception
  raised is no instance of the rate-limit class.  Second, in every turn of the loop,
  whatever \<^verbatim>\<open>current_delay\<close> and the deadline are and whatever the clock shows, a
  rate-limit error whose \<^verbatim>\<open>retry_after\<close> is not negative makes the loop sleep and call
  again: after any number of rate-limit errors in a row, each followed by a sleep
  of its \<^verbatim>\<open>retry_after\<close>, a call that returns ends the run with its value.  Third, a
  callable that raises a rate-limit error on every call keeps the loop running for
  ever: the wrapped callable never returns.  A negative \<^verbatim>\<open>retry_after\<close> is refused by
  \<^verbatim>\<open>time.sleep\<close>; its \<^verbatim>\<open>ValueError\<close>, not the rate-limit error, is what the caller receives.
\<close>

theorem C3_rate_limit_not_raised:
  fixes env :: "('w, 'args, 'r) env"
  shows "(retry_loop self env args s = Some (Raise x, s') \<longrightarrow>
            \<not> isinstance x RateLimitReachedError)
       \<and> ((\<forall>i<length es.
               fst (env_func env args (after_rate_limits env args w (take i es))) = Raise (es ! i)
               \<and> isinstance (es ! i) RateLimitReachedError \<and> 0 \<le> retry_after (es ! i))
            \<and> env_func env args (after_rate_limits env args w es) = (Return v, w') \<longrightarrow>
          retry_while self env args current_delay end_time \<lparr>world = w, trace = tr\<rparr> =
            Some (Return v,
                  \<lparr>world = w',
                   trace = tr @ concat (map (\<lambda>e. [Called, Slept (retry_after e)]) es)
                           @ [Called]\<rparr>))
       \<and> ((\<forall>w. \<exists>e w'. env_func env args w = (Raise e, w')
                  \<and> isinstance e RateLimitReachedError \<and> 0 \<le> retry_after e) \<longrightarrow>
          retry_loop self env args s = None)"
proof (intro conjI impI)
  assume "retry_loop self env args s = Some (Raise x, s')"
  then have "retry_while self env args (retry_delay self)
               (env_now env (world s) + timeout self) s = Some (Raise x, s')"
    by (simp add: retry_loop_def)
  from while_never_raises_RateLimit [OF this]
  show "\<not> isinstance x RateLimitReachedError" by simp
next
  assume h: "(\<forall>i<length es.
               fst (env_func env args (after_rate_limits env args w (take i es))) = Raise (es ! i)
               \<and> isinstance (es ! i) RateLimitReachedError \<and> 0 \<le> retry_after (es ! i))
            \<and> env_func env args (after_rate_limits env args w es) = (Return v, w')"
  then have a: "\<forall>i<length es.
               fst (env_func env args (after_rate_limits env args w (take i es))) = Raise (es ! i)
               \<and> isinstance (es ! i) RateLimitReachedError \<and> 0 \<le> retry_after (es ! i)"
    and b: "env_func env args (after_rate_limits env args w es) = (Return v, w')"
    by blast+
  from a b show "retry_while self env args current_delay end_time \<lparr>world = w, trace = tr\<rparr> =
            Some (Return v,
                  \<lparr>world = w',
                   trace = tr @ concat (map (\<lambda>e. [Called, Slept (retry_after e)]) es)
                           @ [Called]\<rparr>)"
    by (rule while_rate_limits_run)
next
  assume "\<forall>w. \<exists>e w'. env_func env args w = (Raise e, w')
                  \<and> isinstance e RateLimitReachedError \<and> 0 \<le> retry_after e"
  then show "retry_loop self env args s = None"
    by (simp add: retry_loop_def while_perpetual)
qed

theorem C3_rate_limit_not_raised_witness:
  "retry_loop (Retry_init None None None None) scripted_env (7::nat)
     \<lparr>world = (0, [(Raise (rate_limited RateLimitReachedError 5), 40),
                   (Raise (plain_error ValueError ''bad value''), 1)]), trace = []\<rparr> =
     Some (Raise (plain_error ValueError ''bad value''),
           \<lparr>world = (46, []), trace = [Called, Slept 5, Called]\<rparr>)
   \<and> \<not> isinstance (plain_error ValueError ''bad value'') RateLimitReachedError
   \<and> fst (env_func scripted_env (7::nat)
            (0, [(Raise (rate_limited RateLimitReachedError 2), 1),
                 (Raise (rate_limited RateLimitReachedError 5), 40)])) =
       Raise (rate_limited RateLimitReachedError 2)
   \<and> fst (env_func scripted_env (7::nat)
            (3, [(Raise (rate_limited RateLimitReachedError 5), 40)])) =
       Raise (rate_limited RateLimitReachedError 5)
   \<and> isinstance (rate_limited RateLimitReachedError 2) RateLimitReachedError
   \<and> isinstance (rate_limited RateLimitReachedError 5) RateLimitReachedError
   \<and> 0 \<le> retry_after (rate_limited RateLimitReachedError 2)
   \<and> 0 \<le> retry_after (rate_limited RateLimitReachedError 5)
   \<and> after_rate_limits scripted_env (7::nat)
        (0, [(Raise (rate_limited RateLimitReachedError 2), 1),
             (Raise (rate_limited RateLimitReachedError 5), 40)])
        [rate_limited RateLimitReachedError 2, rate_limited RateLimitReachedError 5] = (48, [])
   \<and> env_func scripted_env (7::nat) (48, []) = (Return 7, (48, []))
   \<and> retry_while (Retry_init None None None None) scripted_env (7::nat) 1 30
       \<lparr>world = (0, [(Raise (rate_limited RateLimitReachedError 2), 1),
                     (Raise (rate_limited RateLimitReachedError 5), 40)]), trace = []\<rparr> =
     Some (Return 7, \<lparr>world = (48, []), trace = [Called, Slept 2, Called, Slept 5, Called]\<rparr>)
   \<and> (\<forall>w. \<exists>e w'. env_func throttling_env () w = (Raise e, w')
                  \<and> isinstance e RateLimitReachedError \<and> 0 \<le> retry_after e)
   \<and> retry_loop (Retry_init None None None None) throttling_env ()
        \<lparr>world = 0, trace = []\<rparr> = None"
proof -
  let ?cfg = "Retry_init None None None None"
  let ?r2 = "rate_limited RateLimitReachedError 2"
  let ?r5 = "rate_limited RateLimitReachedError 5"
  let ?ve = "plain_error ValueError ''bad value''"
  let ?s0 = "\<lparr>world = (0, [(Raise ?r5, 40), (Raise ?ve, 1)]), trace = []\<rparr> :: nat scripted run"
  let ?w = "(0, [(Raise ?r2, 1), (Raise ?r5, 40)]) :: nat scripted"
  have run: "retry_loop ?cfg scripted_env (7::nat) ?s0 =
               Some (Raise ?ve, \<lparr>world = (46, []), trace = [Called, Slept 5, Called]\<rparr>)"
    by (simp add: retry_loop_def retry_while.simps Retry_init_def scripted_env_def
        scripted_func_def rate_limited_def plain_error_def transform_ssl_error_def
        time_sleep_def isinstance_def issubclass_def DEFAULT_TIMEOUT_def DEFAULT_DELAY_def
        DEFAULT_BACKOFF_def RETRY_EXCEPTIONS_def should_retry_def)
  have a: "\<not> isinstance ?ve RateLimitReachedError"
    using C3_rate_limit_not_raised [where self = ?cfg and env = scripted_env and args = 7
        and s = ?s0 and x = ?ve
        and s' = "\<lparr>world = (46, []), trace = [Called, Slept 5, Called]\<rparr>", THEN conjunct1] run
    by blast
  have f0: "fst (env_func scripted_env (7::nat) ?w) = Raise ?r2"
    by (simp add: scripted_env_def scripted_func_def)
  have f1: "fst (env_func scripted_env (7::nat) (3, [(Raise ?r5, 40)])) = Raise ?r5"
    by (simp add: scripted_env_def scripted_func_def)
  have i2: "isinstance ?r2 RateLimitReachedError" and i5: "isinstance ?r5 RateLimitReachedError"
    by (simp_all add: rate_limited_def isinstance_def issubclass_def)
  have n2: "0 \<le> retry_after ?r2" and n5: "0 \<le> retry_after ?r5"
    by (simp_all add: rate_limited_def)
  have ra: "retry_after ?r2 = 2" "retry_after ?r5 = 5"
    by (simp_all add: rate_limited_def)
  have st1: "after_rate_limits scripted_env (7::nat) ?w [?r2] = (3, [(Raise ?r5, 40)])"
    by (simp add: ra) (simp add: scripted_env_def scripted_func_def)
  have st2: "after_rate_limits scripted_env (7::nat) ?w [?r2, ?r5] = (48, [])"
    by (simp add: ra) (simp add: scripted_env_def scripted_func_def)
  have fin: "env_func scripted_env (7::nat) (48, []) = (Return 7, (48, []))"
    by (simp add: scripted_env_def scripted_func_def)
  have all: "\<forall>i<length [?r2, ?r5].
       fst (env_func scripted_env (7::nat)
              (after_rate_limits scripted_env 7 ?w (take i [?r2, ?r5]))) = Raise ([?r2, ?r5] ! i)
       \<and> isinstance ([?r2, ?r5] ! i) RateLimitReachedError \<and> 0 \<le> retry_after ([?r2, ?r5] ! i)"
  proof (intro allI impI)
    fix i assume "i < length [?r2, ?r5]"
    then consider "i = 0" | "i = Suc 0" by fastforce
    then show "fst (env_func scripted_env (7::nat)
              (after_rate_limits scripted_env 7 ?w (take i [?r2, ?r5]))) = Raise ([?r2, ?r5] ! i)
       \<and> isinstance ([?r2, ?r5] ! i) RateLimitReachedError \<and> 0 \<le> retry_after ([?r2, ?r5] ! i)"
    proof cases
      case 1
      show ?thesis
        unfolding 1 using f0 i2 n2 by simp
    next
      case 2
      have tk: "take (Suc 0) [?r2, ?r5] = [?r2]" by simp
      show ?thesis
        unfolding 2 tk st1 using f1 i5 n5 by simp
    qed
  qed
  have b: "retry_while ?cfg scripted_env (7::nat) 1 30 \<lparr>world = ?w, trace = []\<rparr> =
     Some (Return 7, \<lparr>world = (48, []), trace = [Called, Slept 2, Called, Slept 5, Called]\<rparr>)"
    using C3_rate_limit_not_raised [where self = ?cfg and env = scripted_env and args = 7
        and es = "[?r2, ?r5]" and w = ?w and v = 7 and w' = "(48, [])" and current_delay = 1
        and end_time = 30 and tr = "[]", THEN conjunct2, THEN conjunct1] all st2 fin
    by (simp add: ra)
  have h5: "\<forall>w. \<exists>e w'. env_func throttling_env () w = (Raise e, w')
                  \<and> isinstance e RateLimitReachedError \<and> 0 \<le> retry_after e"
    by (simp add: throttling_env_def rate_limited_def isinstance_def issubclass_def)
  have c: "retry_loop ?cfg throttling_env () \<lparr>world = 0, trace = []\<rparr> = None"
    using C3_rate_limit_not_raised [where self = ?cfg and env = throttling_env and args = "()"
        and s = "\<lparr>world = 0, trace = []\<rparr>", THEN conjunct2, THEN conjunct2] h5
    by blast
  from run a f0 f1 i2 i5 n2 n5 st2 fin b h5 c show ?thesis by blast
qed

theorem C3_negative_retry_after_counterexample:
  "isinstance (rate_limited RateLimitReachedError (-2)) RateLimitReachedError
   \<and> retry_loop (Retry_init None None (Some 0) None) scripted_env (7::nat)
       \<lparr>world = (0, [(Raise (rate_limited RateLimitReachedError (-2)), 3), (Return 8, 1)]),
        trace = []\<rparr> =
     Some (Raise sleep_error, \<lparr>world = (3, [(Return 8, 1)]), trace = [Called]\<rparr>)
   \<and> exc_type sleep_error = ValueError"
proof -
  have a: "isinstance (rate_limited RateLimitReachedError (-2)) RateLimitReachedError"
    by (simp add: rate_limited_def isinstance_def issubclass_def)
  have b: "retry_loop (Retry_init None None (Some 0) None) scripted_env (7::nat)
       \<lparr>world = (0, [(Raise (rate_limited RateLimitReachedError (-2)), 3), (Return 8, 1)]),
        trace = []\<rparr> =
     Some (Raise sleep_error, \<lparr>world = (3, [(Return 8, 1)]), trace = [Called]\<rparr>)"
    by (simp add: retry_loop_def retry_while.simps Retry_init_def scripted_env_def
        scripted_func_def rate_limited_def transform_ssl_error_def
        time_sleep_def isinstance_def issubclass_def DEFAULT_TIMEOUT_def DEFAULT_DELAY_def
        DEFAULT_BACKOFF_def RETRY_EXCEPTIONS_def should_retry_def)
  have c: "exc_type sleep_error = ValueError"
    by (simp add: sleep_error_def)
  from a b c show ?thesis by blast
qed

subsection \<open>C4: the deadline\<close>

text \<open>
  Claim C4, as the code has it.  In every turn of the loop, when the callable
  raises an error that is no rate-limit error and the clock read at that moment
  has reached the deadline, the error is raised to the caller without any sleep,
  also when its class is one of the configured retryable classes.  The caller
  receives the very error the callable raised, nothing wrapped around it, unless
  that error is an SSL error with the marker in its text: then the caller receives
  the \<^verbatim>\<open>TransientSSLError\<close> that \<^verbatim>\<open>transform_ssl_error\<close> built from its \<^verbatim>\<open>args\<close>.
\<close>

theorem C4_deadline_reraises:
  "env_func env args (world s) = (Raise e, w1) \<Longrightarrow>
   \<not> isinstance e RateLimitReachedError \<Longrightarrow> end_time \<le> env_now env w1 \<Longrightarrow>
   retry_while self env args current_delay end_time s =
     Some (Raise (if isinstance e SSLError \<and> sublist TRANSIENT_SSL_ERROR (exc_str e)
                  then e\<lparr>exc_type := TransientSSLError\<rparr> else e),
           \<lparr>world = w1, trace = trace s @ [Called]\<rparr>)"
  using turn_deadline [of env args s e w1 end_time self current_delay]
  by (simp add: ssl_transformed_def)

theorem C4_deadline_reraises_witness:
  "env_func scripted_env (7::nat)
     (world \<lparr>world = (0, [(Raise (plain_error socket_error ''Connection reset by peer''), 30)]),
             trace = []\<rparr>) =
     (Raise (plain_error socket_error ''Connection reset by peer''), (30, []))
   \<and> \<not> isinstance (plain_error socket_error ''Connection reset by peer'') RateLimitReachedError
   \<and> (30::real) \<le> env_now scripted_env ((30, []) :: nat scripted)
   \<and> should_retry (Retry_init None None None None)
        (plain_error socket_error ''Connection reset by peer'')
   \<and> retry_while (Retry_init None None None None) scripted_env (7::nat) 1 30
       \<lparr>world = (0, [(Raise (plain_error socket_error ''Connection reset by peer''), 30)]),
        trace = []\<rparr> =
     Some (Raise (plain_error socket_error ''Connection reset by peer''),
           \<lparr>world = (30, []), trace = [Called]\<rparr>)"
proof -
  let ?e = "plain_error socket_error ''Connection reset by peer''"
  have h1: "env_func scripted_env (7::nat)
     (world \<lparr>world = (0, [(Raise ?e, 30)]), trace = []\<rparr>) = (Raise ?e, (30, []))"
    by (simp add: scripted_env_def scripted_func_def)
  have h2: "\<not> isinstance ?e RateLimitReachedError"
    by (simp add: plain_error_def isinstance_def issubclass_def)
  have h3: "(30::real) \<le> env_now scripted_env ((30, []) :: nat scripted)"
    by (simp add: scripted_env_def)
  have h4: "should_retry (Retry_init None None None None) ?e"
    by (simp add: should_retry_def Retry_init_def RETRY_EXCEPTIONS_def plain_error_def)
  have nssl: "\<not> isinstance ?e SSLError"
    by (simp add: plain_error_def isinstance_def issubclass_def)
  from C4_deadline_reraises [OF h1 h2 h3, of "Retry_init None None None None" 1] nssl
  have "retry_while (Retry_init None None None None) scripted_env (7::nat) 1 30
       \<lparr>world = (0, [(Raise ?e, 30)]), trace = []\<rparr> =
     Some (Raise ?e, \<lparr>world = (30, []), trace = [Called]\<rparr>)"
    by simp
  with h1 h2 h3 h4 show ?thesis by blast
qed

theorem C4_marker_ssl_error_counterexample:
  "\<not> isinstance (plain_error SSLError ''The read operation timed out'') RateLimitReachedError
   \<and> retry_loop (Retry_init None None (Some 0) None) scripted_env (7::nat)
       \<lparr>world = (0, [(Raise (plain_error SSLError ''The read operation timed out''), 4)]),
        trace = []\<rparr> =
     Some (Raise (plain_error TransientSSLError ''The read operation timed out''),
           \<lparr>world = (4, []), trace = [Called]\<rparr>)
   \<and> plain_error TransientSSLError ''The read operation timed out''
       \<noteq> plain_error SSLError ''The read operation timed out''"
proof -
  have a: "\<not> isinstance (plain_error SSLError ''The read operation timed out'')
             RateLimitReachedError"
    by (simp add: plain_error_def isinstance_def issubclass_def)
  have m: "sublist TRANSIENT_SSL_ERROR ''The read operation timed out''"
    by (simp add: TRANSIENT_SSL_ERROR_def)
  have b: "retry_loop (Retry_init None None (Some 0) None) scripted_env (7::nat)
       \<lparr>world = (0, [(Raise (plain_error SSLError ''The read operation timed out''), 4)]),
        trace = []\<rparr> =
     Some (Raise (plain_error TransientSSLError ''The read operation timed out''),
           \<lparr>world = (4, []), trace = [Called]\<rparr>)"
    using m
    by (simp add: retry_loop_def retry_while.simps Retry_init_def scripted_env_def
        scripted_func_def plain_error_def transform_ssl_error_def
        time_sleep_def isinstance_def issubclass_def DEFAULT_TIMEOUT_def DEFAULT_DELAY_def
        DEFAULT_BACKOFF_def RETRY_EXCEPTIONS_def should_retry_def)
  have c: "plain_error TransientSSLError ''The read operation timed out''
       \<noteq> plain_error SSLError ''The read operation timed out''"
    by (simp add: plain_error_def)
  from a b c show ?thesis by blast
qed

subsection \<open>C5: membership in the retryable classes is by exact class\<close>

text \<open>
  Claim C5, as the code has it.  Membership is decided on the exact class of the
  error as the handler catches it: \<^verbatim>\<open>TransientSSLError\<close> for an SSL error with the
  marker in its text, the error's own class otherwise.  Let the callable raise an
  error that is no rate-limit error.  If the error is an instance of \<^verbatim>\<open>Exception\<close>,
  the deadline is not reached, \<^verbatim>\<open>current_delay\<close> is not negative and that exact class
  is one of the configured classes, the error is retried: the loop sleeps
  \<^verbatim>\<open>current_delay\<close> and calls again, and if that call returns, its value is returned.
  If that exact class is not one of the configured classes, be it a subclass of
  one, the error caught is raised at once, on the first attempt and without any
  sleep.
\<close>

theorem C5_exact_class:
  assumes "env_func env args (world s) = (Raise e, w1)"
    and "\<not> isinstance e RateLimitReachedError"
  shows "(isinstance e Exception \<and> env_now env w1 < end_time \<and> 0 \<le> current_delay
          \<and> exc_type (ssl_transformed e) \<in> set (retry_exceptions self) \<longrightarrow>
            retry_while self env args current_delay end_time s =
              retry_while self env args (current_delay * backoff self) end_time
                \<lparr>world = env_sleep env current_delay w1,
                 trace = trace s @ [Called, Slept current_delay]\<rparr>)
       \<and> (isinstance e Exception \<and> env_now env w1 < end_time \<and> 0 \<le> current_delay
          \<and> exc_type (ssl_transformed e) \<in> set (retry_exceptions self)
          \<and> env_func env args (env_sleep env current_delay w1) = (Return v, w3) \<longrightarrow>
            retry_while self env args current_delay end_time s =
              Some (Return v,
                    \<lparr>world = w3, trace = trace s @ [Called, Slept current_delay, Called]\<rparr>))
       \<and> (exc_type (ssl_transformed e) \<notin> set (retry_exceptions self) \<longrightarrow>
            retry_while self env args current_delay end_time s =
              Some (Raise (ssl_transformed e), \<lparr>world = w1, trace = trace s @ [Called]\<rparr>)
            \<and> retry_loop self env args s =
              Some (Raise (ssl_transformed e), \<lparr>world = w1, trace = trace s @ [Called]\<rparr>))"
proof -
  have again: "retry_while self env args current_delay end_time s =
              retry_while self env args (current_delay * backoff self) end_time
                \<lparr>world = env_sleep env current_delay w1,
                 trace = trace s @ [Called, Slept current_delay]\<rparr>"
    if "isinstance e Exception" "env_now env w1 < end_time" "0 \<le> current_delay"
      "exc_type (ssl_transformed e) \<in> set (retry_exceptions self)"
    using assms(1) that(1) assms(2) that(4) that(2) that(3) by (rule turn_backoff)
  have ret: "retry_while self env args current_delay end_time s =
              Some (Return v,
                    \<lparr>world = w3, trace = trace s @ [Called, Slept current_delay, Called]\<rparr>)"
    if "isinstance e Exception" "env_now env w1 < end_time" "0 \<le> current_delay"
      "exc_type (ssl_transformed e) \<in> set (retry_exceptions self)"
      "env_func env args (env_sleep env current_delay w1) = (Return v, w3)"
    using that(5) by (simp add: again [OF that(1-4)] turn_Return)
  have fatal: "retry_while self env args d end_time' s =
              Some (Raise (ssl_transformed e), \<lparr>world = w1, trace = trace s @ [Called]\<rparr>)"
    if "exc_type (ssl_transformed e) \<notin> set (retry_exceptions self)" for d end_time'
    using assms(1,2) that by (rule turn_not_retryable)
  have first: "retry_loop self env args s =
              Some (Raise (ssl_transformed e), \<lparr>world = w1, trace = trace s @ [Called]\<rparr>)"
    if "exc_type (ssl_transformed e) \<notin> set (retry_exceptions self)"
    using fatal [OF that] by (simp add: retry_loop_def)
  from again ret fatal first show ?thesis by blast
qed

theorem C5_exact_class_witness:
  "env_func scripted_env (7::nat)
     (world \<lparr>world = (0, [(Raise (plain_error (UserClass ''ConnectionResetError'' socket_error)
                                     ''Connection reset by peer''), 2)]), trace = []\<rparr>) =
     (Raise (plain_error (UserClass ''ConnectionResetError'' socket_error)
               ''Connection reset by peer''), (2, []))
   \<and> \<not> isinstance (plain_error (UserClass ''ConnectionResetError'' socket_error)
                     ''Connection reset by peer'') RateLimitReachedError
   \<and> isinstance (plain_error (UserClass ''ConnectionResetError'' socket_error)
                     ''Connection reset by peer'') socket_error
   \<and> socket_error \<in> set (retry_exceptions (Retry_init None None None (Some 3)))
   \<and> exc_type (ssl_transformed (plain_error (UserClass ''ConnectionResetError'' socket_error)
                     ''Connection reset by peer''))
        \<notin> set (retry_exceptions (Retry_init None None None (Some 3)))
   \<and> retry_while (Retry_init None None None (Some 3)) scripted_env (7::nat) 1 30
       \<lparr>world = (0, [(Raise (plain_error (UserClass ''ConnectionResetError'' socket_error)
                                ''Connection reset by peer''), 2)]), trace = []\<rparr> =
     Some (Raise (plain_error (UserClass ''ConnectionResetError'' socket_error)
                    ''Connection reset by peer''),
           \<lparr>world = (2, []), trace = [Called]\<rparr>)
   \<and> retry_loop (Retry_init None None None (Some 3)) scripted_env (7::nat)
       \<lparr>world = (0, [(Raise (plain_error (UserClass ''ConnectionResetError'' socket_error)
                                ''Connection reset by peer''), 2)]), trace = []\<rparr> =
     Some (Raise (plain_error (UserClass ''ConnectionResetError'' socket_error)
                    ''Connection reset by peer''),
           \<lparr>world = (2, []), trace = [Called]\<rparr>)
   \<and> env_func scripted_env (7::nat)
       (world \<lparr>world = (0, [(Raise (plain_error socket_error ''Connection reset by peer''), 2)]),
               trace = []\<rparr>) =
     (Raise (plain_error socket_error ''Connection reset by peer''), (2, []))
   \<and> \<not> isinstance (plain_error socket_error ''Connection reset by peer'') RateLimitReachedError
   \<and> isinstance (plain_error socket_error ''Connection reset by peer'') Exception
   \<and> env_now scripted_env ((2, []) :: nat scripted) < (30::real)
   \<and> (0::real) \<le> 1
   \<and> exc_type (ssl_transformed (plain_error socket_error ''Connection reset by peer''))
        \<in> set (retry_exceptions (Retry_init None None None (Some 3)))
   \<and> env_func scripted_env (7::nat) (env_sleep scripted_env 1 (2, [])) = (Return 7, (3, []))
   \<and> retry_while (Retry_init None None None (Some 3)) scripted_env (7::nat) 1 30
       \<lparr>world = (0, [(Raise (plain_error socket_error ''Connection reset by peer''), 2)]),
        trace = []\<rparr> =
     retry_while (Retry_init None None None (Some 3)) scripted_env 7 3 30
       \<lparr>world = (3, []), trace = [Called, Slept 1]\<rparr>
   \<and> retry_while (Retry_init None None None (Some 3)) scripted_env (7::nat) 1 30
       \<lparr>world = (0, [(Raise (plain_error socket_error ''Connection reset by peer''), 2)]),
        trace = []\<rparr> =
     Some (Return 7, \<lparr>world = (3, []), trace = [Called, Slept 1, Called]\<rparr>)"
proof -
  let ?sub = "plain_error (UserClass ''ConnectionResetError'' socket_error)
                ''Connection reset by peer''"
  let ?err = "plain_error socket_error ''Connection reset by peer''"
  let ?cfg = "Retry_init None None None (Some 3)"
  have h1: "env_func scripted_env (7::nat)
              (world \<lparr>world = (0, [(Raise ?sub, 2)]), trace = []\<rparr>) = (Raise ?sub, (2, []))"
    by (simp add: scripted_env_def scripted_func_def)
  have h2: "\<not> isinstance ?sub RateLimitReachedError"
    by (simp add: plain_error_def isinstance_def issubclass_def)
  have h3: "isinstance ?sub socket_error" "\<not> isinstance ?sub SSLError"
    by (simp_all add: plain_error_def isinstance_def issubclass_def)
  have tsub: "ssl_transformed ?sub = ?sub"
    using h3(2) by (rule ssl_transformed_plain)
  have h5: "exc_type (ssl_transformed ?sub) \<notin> set (retry_exceptions ?cfg)"
    unfolding tsub by (simp add: Retry_init_def RETRY_EXCEPTIONS_def plain_error_def)
  have h6: "socket_error \<in> set (retry_exceptions ?cfg)"
    by (simp add: Retry_init_def RETRY_EXCEPTIONS_def)
  have a: "retry_while ?cfg scripted_env (7::nat) 1 30
             \<lparr>world = (0, [(Raise ?sub, 2)]), trace = []\<rparr> =
           Some (Raise ?sub, \<lparr>world = (2, []), trace = [Called]\<rparr>)
         \<and> retry_loop ?cfg scripted_env (7::nat)
             \<lparr>world = (0, [(Raise ?sub, 2)]), trace = []\<rparr> =
           Some (Raise ?sub, \<lparr>world = (2, []), trace = [Called]\<rparr>)"
    using C5_exact_class [OF h1 h2, where self = ?cfg and current_delay = 1 and end_time = 30,
        THEN conjunct2, THEN conjunct2] h5
    by (simp add: tsub)
  have g1: "env_func scripted_env (7::nat)
              (world \<lparr>world = (0, [(Raise ?err, 2)]), trace = []\<rparr>) = (Raise ?err, (2, []))"
    by (simp add: scripted_env_def scripted_func_def)
  have g2: "\<not> isinstance ?err RateLimitReachedError" "isinstance ?err Exception"
    "\<not> isinstance ?err SSLError"
    by (simp_all add: plain_error_def isinstance_def issubclass_def)
  have terr: "ssl_transformed ?err = ?err"
    using g2(3) by (rule ssl_transformed_plain)
  have g3: "exc_type (ssl_transformed ?err) \<in> set (retry_exceptions ?cfg)"
    unfolding terr by (simp add: Retry_init_def RETRY_EXCEPTIONS_def plain_error_def)
  have g4: "env_now scripted_env ((2, []) :: nat scripted) < (30::real)"
    by (simp add: scripted_env_def)
  have g5: "(0::real) \<le> 1" by simp
  have g6: "env_func scripted_env (7::nat) (env_sleep scripted_env 1 (2, [])) = (Return 7, (3, []))"
    by (simp add: scripted_env_def scripted_func_def)
  have bk: "backoff ?cfg = 3"
    by (simp add: Retry_init_def)
  have sl: "env_sleep scripted_env 1 ((2, []) :: nat scripted) = (3, [])"
    by (simp add: scripted_env_def)
  have b: "retry_while ?cfg scripted_env (7::nat) 1 30
             \<lparr>world = (0, [(Raise ?err, 2)]), trace = []\<rparr> =
           retry_while ?cfg scripted_env 7 3 30 \<lparr>world = (3, []), trace = [Called, Slept 1]\<rparr>"
    using C5_exact_class [OF g1 g2(1), where self = ?cfg and current_delay = 1
        and end_time = 30, THEN conjunct1] g2(2) g3 g4
    by (simp add: bk sl)
  have c: "retry_while ?cfg scripted_env (7::nat) 1 30
             \<lparr>world = (0, [(Raise ?err, 2)]), trace = []\<rparr> =
           Some (Return 7, \<lparr>world = (3, []), trace = [Called, Slept 1, Called]\<rparr>)"
    using C5_exact_class [OF g1 g2(1), where self = ?cfg and current_delay = 1
        and end_time = 30 and v = 7 and ?w3.0 = "(3, [])",
        THEN conjunct2, THEN conjunct1] g2(2) g3 g4 g6
    by simp
  from h1 h2 h3(1) h6 h5 a g1 g2(1,2) g4 g5 g3 g6 b c show ?thesis by blast
qed

theorem C5_configured_ssl_error_counterexample:
  "exc_type (plain_error SSLError ''The read operation timed out'')
     \<in> set (retry_exceptions (Retry_init (Some [SSLError]) None None None))
   \<and> \<not> isinstance (plain_error SSLError ''The read operation timed out'') RateLimitReachedError
   \<and> (2::real) < 0 + timeout (Retry_init (Some [SSLError]) None None None)
   \<and> retry_loop (Retry_init (Some [SSLError]) None None None) scripted_env (7::nat)
       \<lparr>world = (0, [(Raise (plain_error SSLError ''The read operation timed out''), 2)]),
        trace = []\<rparr> =
     Some (Raise (plain_error TransientSSLError ''The read operation timed out''),
           \<lparr>world = (2, []), trace = [Called]\<rparr>)"
proof -
  let ?cfg = "Retry_init (Some [SSLError]) None None None"
  have a: "exc_type (plain_error SSLError ''The read operation timed out'')
             \<in> set (retry_exceptions ?cfg)"
    by (simp add: Retry_init_def plain_error_def)
  have b: "\<not> isinstance (plain_error SSLError ''The read operation timed out'')
             RateLimitReachedError"
    by (simp add: plain_error_def isinstance_def issubclass_def)
  have c: "(2::real) < 0 + timeout ?cfg"
    by (simp add: Retry_init_def DEFAULT_TIMEOUT_def)
  have m: "sublist TRANSIENT_SSL_ERROR ''The read operation timed out''"
    by (simp add: TRANSIENT_SSL_ERROR_def)
  have d: "retry_loop ?cfg scripted_env (7::nat)
       \<lparr>world = (0, [(Raise (plain_error SSLError ''The read operation timed out''), 2)]),
        trace = []\<rparr> =
     Some (Raise (plain_error TransientSSLError ''The read operation timed out''),
           \<lparr>world = (2, []), trace = [Called]\<rparr>)"
    using m
    by (simp add: retry_loop_def retry_while.simps Retry_init_def scripted_env_def
        scripted_func_def plain_error_def transform_ssl_error_def
        time_sleep_def isinstance_def issubclass_def DEFAULT_TIMEOUT_def DEFAULT_DELAY_def
        DEFAULT_BACKOFF_def should_retry_def)
  from a b c d show ?thesis by blast
qed

subsection \<open>C6: SSL errors and the marker text\<close>

text \<open>
  Claim C6, as the code has it.  Let the callable raise an instance of
  \<^verbatim>\<open>ssl.SSLError\<close> and let the retryable classes be the default ones.  If the text of
  the error contains \<^verbatim>\<open>The read operation timed out\<close>, the handler receives a
  \<^verbatim>\<open>TransientSSLError\<close> in its place, which is retryable: before the deadline the loop
  sleeps \<^verbatim>\<open>current_delay\<close> and goes on with the delay multiplied.  If the text does not
  contain the marker and the error is not itself a \<^verbatim>\<open>TransientSSLError\<close>, the error is
  raised to the caller as it is.  An error raised as \<^verbatim>\<open>TransientSSLError\<close> by the callable
  is an SSL error too and stays retryable without the marker.
\<close>

theorem C6_ssl_marker:
  "env_func env args (world s) = (Raise e, w1) \<Longrightarrow> isinstance e SSLError \<Longrightarrow>
   retry_exceptions self = RETRY_EXCEPTIONS \<Longrightarrow>
   (sublist TRANSIENT_SSL_ERROR (exc_str e) \<longrightarrow>
      transform_ssl_error env args s =
        (Raise (e\<lparr>exc_type := TransientSSLError\<rparr>), \<lparr>world = w1, trace = trace s @ [Called]\<rparr>)
      \<and> should_retry self (e\<lparr>exc_type := TransientSSLError\<rparr>)
      \<and> (env_now env w1 < end_time \<and> 0 \<le> current_delay \<longrightarrow>
            retry_while self env args current_delay end_time s =
              retry_while self env args (current_delay * backoff self) end_time
                \<lparr>world = env_sleep env current_delay w1,
                 trace = trace s @ [Called, Slept current_delay]\<rparr>))
   \<and> (\<not> sublist TRANSIENT_SSL_ERROR (exc_str e) \<and> exc_type e \<noteq> TransientSSLError \<longrightarrow>
        retry_while self env args current_delay end_time s =
          Some (Raise e, \<lparr>world = w1, trace = trace s @ [Called]\<rparr>))"
proof -
  assume f: "env_func env args (world s) = (Raise e, w1)" and ssl: "isinstance e SSLError"
    and dflt: "retry_exceptions self = RETRY_EXCEPTIONS"
  let ?t = "e\<lparr>exc_type := TransientSSLError\<rparr>"
  let ?s1 = "\<lparr>world = w1, trace = trace s @ [Called]\<rparr>"
  have marked: "transform_ssl_error env args s = (Raise ?t, ?s1)
      \<and> should_retry self ?t
      \<and> (env_now env w1 < end_time \<and> 0 \<le> current_delay \<longrightarrow>
            retry_while self env args current_delay end_time s =
              retry_while self env args (current_delay * backoff self) end_time
                \<lparr>world = env_sleep env current_delay w1,
                 trace = trace s @ [Called, Slept current_delay]\<rparr>)"
    if m: "sublist TRANSIENT_SSL_ERROR (exc_str e)"
  proof -
    have t: "transform_ssl_error env args s = (Raise ?t, ?s1)"
      using f ssl m by (simp add: transform_ssl_error_def run_updates)
    have sr: "should_retry self ?t"
      by (simp add: should_retry_def dflt RETRY_EXCEPTIONS_def)
    have ex: "isinstance ?t Exception" and nrl: "\<not> isinstance ?t RateLimitReachedError"
      by (simp_all add: isinstance_def issubclass_def)
    have "retry_while self env args current_delay end_time s =
              retry_while self env args (current_delay * backoff self) end_time
                \<lparr>world = env_sleep env current_delay w1,
                 trace = trace s @ [Called, Slept current_delay]\<rparr>"
      if "env_now env w1 < end_time" "0 \<le> current_delay"
      using while_backoff [OF t ex nrl _ sr that(2), of end_time] that(1)
      by (simp add: run_updates)
    with t sr show ?thesis by blast
  qed
  have plain: "retry_while self env args current_delay end_time s = Some (Raise e, ?s1)"
    if nm: "\<not> sublist TRANSIENT_SSL_ERROR (exc_str e)" and nt: "exc_type e \<noteq> TransientSSLError"
  proof -
    have t: "transform_ssl_error env args s = (Raise e, ?s1)"
      using f ssl nm by (simp add: transform_ssl_error_def run_updates)
    have "exc_type e \<notin> set RETRY_EXCEPTIONS"
      using ssl nt by (auto simp: RETRY_EXCEPTIONS_def isinstance_def issubclass_def)
    then have nsr: "\<not> should_retry self e"
      by (simp add: should_retry_def dflt)
    have nrl: "\<not> isinstance e RateLimitReachedError"
      using ssl isinstance_RateLimit_not_SSLError by blast
    from while_not_retryable [OF t nrl nsr] show ?thesis .
  qed
  from marked plain show ?thesis by blast
qed

theorem C6_ssl_marker_witness:
  "env_func scripted_env (7::nat)
     (world \<lparr>world = (0, [(Raise (plain_error SSLError ''The read operation timed out''), 2)]),
             trace = []\<rparr>) =
     (Raise (plain_error SSLError ''The read operation timed out''), (2, []))
   \<and> isinstance (plain_error SSLError ''The read operation timed out'') SSLError
   \<and> retry_exceptions (Retry_init None None None None) = RETRY_EXCEPTIONS
   \<and> sublist TRANSIENT_SSL_ERROR (exc_str (plain_error SSLError ''The read operation timed out''))
   \<and> env_now scripted_env ((2, []) :: nat scripted) < (30::real)
   \<and> (0::real) \<le> 1
   \<and> transform_ssl_error scripted_env (7::nat)
       \<lparr>world = (0, [(Raise (plain_error SSLError ''The read operation timed out''), 2)]),
        trace = []\<rparr> =
     (Raise (plain_error TransientSSLError ''The read operation timed out''),
      \<lparr>world = (2, []), trace = [Called]\<rparr>)
   \<and> should_retry (Retry_init None None None None)
        (plain_error TransientSSLError ''The read operation timed out'')
   \<and> retry_while (Retry_init None None None None) scripted_env (7::nat) 1 30
       \<lparr>world = (0, [(Raise (plain_error SSLError ''The read operation timed out''), 2)]),
        trace = []\<rparr> =
     retry_while (Retry_init None None None None) scripted_env 7 1 30
       \<lparr>world = (3, []), trace = [Called, Slept 1]\<rparr>
   \<and> env_func scripted_env (7::nat)
     (world \<lparr>world = (0, [(Raise (plain_error SSLError ''certificate verify failed''), 2)]),
             trace = []\<rparr>) =
     (Raise (plain_error SSLError ''certificate verify failed''), (2, []))
   \<and> isinstance (plain_error SSLError ''certificate verify failed'') SSLError
   \<and> \<not> sublist TRANSIENT_SSL_ERROR (exc_str (plain_error SSLError ''certificate verify failed''))
   \<and> exc_type (plain_error SSLError ''certificate verify failed'') \<noteq> TransientSSLError
   \<and> retry_while (Retry_init None None None None) scripted_env (7::nat) 1 30
       \<lparr>world = (0, [(Raise (plain_error SSLError ''certificate verify failed''), 2)]),
        trace = []\<rparr> =
     Some (Raise (plain_error SSLError ''certificate verify failed''),
           \<lparr>world = (2, []), trace = [Called]\<rparr>)"
proof -
  let ?cfg = "Retry_init None None None None"
  let ?m = "plain_error SSLError ''The read operation timed out''"
  let ?p = "plain_error SSLError ''certificate verify failed''"
  have h1: "env_func scripted_env (7::nat)
              (world \<lparr>world = (0, [(Raise ?m, 2)]), trace = []\<rparr>) = (Raise ?m, (2, []))"
    by (simp add: scripted_env_def scripted_func_def)
  have h2: "isinstance ?m SSLError"
    by (simp add: plain_error_def isinstance_def issubclass_def)
  have h3: "retry_exceptions ?cfg = RETRY_EXCEPTIONS"
    by (simp add: Retry_init_def)
  have h4: "sublist TRANSIENT_SSL_ERROR (exc_str ?m)"
    by (simp add: plain_error_def TRANSIENT_SSL_ERROR_def)
  have h5: "env_now scripted_env ((2, []) :: nat scripted) < (30::real)"
    by (simp add: scripted_env_def)
  have h6: "(0::real) \<le> 1" by simp
  have upd: "?m\<lparr>exc_type := TransientSSLError\<rparr> =
             plain_error TransientSSLError ''The read operation timed out''"
    by (simp add: plain_error_def)
  have misc: "backoff ?cfg = 1" "env_sleep scripted_env 1 ((2, []) :: nat scripted) = (3, [])"
    by (simp_all add: Retry_init_def DEFAULT_BACKOFF_def scripted_env_def)
  have a: "transform_ssl_error scripted_env (7::nat)
             \<lparr>world = (0, [(Raise ?m, 2)]), trace = []\<rparr> =
           (Raise (plain_error TransientSSLError ''The read operation timed out''),
            \<lparr>world = (2, []), trace = [Called]\<rparr>)
         \<and> should_retry ?cfg (plain_error TransientSSLError ''The read operation timed out'')
         \<and> retry_while ?cfg scripted_env (7::nat) 1 30
             \<lparr>world = (0, [(Raise ?m, 2)]), trace = []\<rparr> =
           retry_while ?cfg scripted_env 7 1 30 \<lparr>world = (3, []), trace = [Called, Slept 1]\<rparr>"
    using C6_ssl_marker [OF h1 h2 h3, of 30 1] h4 h5
    by (simp add: upd misc)
  have k1: "env_func scripted_env (7::nat)
              (world \<lparr>world = (0, [(Raise ?p, 2)]), trace = []\<rparr>) = (Raise ?p, (2, []))"
    by (simp add: scripted_env_def scripted_func_def)
  have k2: "isinstance ?p SSLError"
    by (simp add: plain_error_def isinstance_def issubclass_def)
  have k3: "\<not> sublist TRANSIENT_SSL_ERROR (exc_str ?p)"
    by (simp add: plain_error_def TRANSIENT_SSL_ERROR_def sublist_code(3))
  have k4: "exc_type ?p \<noteq> TransientSSLError"
    by (simp add: plain_error_def)
  have b: "retry_while ?cfg scripted_env (7::nat) 1 30
             \<lparr>world = (0, [(Raise ?p, 2)]), trace = []\<rparr> =
           Some (Raise ?p, \<lparr>world = (2, []), trace = [Called]\<rparr>)"
    using C6_ssl_marker [OF k1 k2 h3, of 30 1] k3 k4
    by simp
  from h1 h2 h3 h4 h5 h6 a k1 k2 k3 k4 b show ?thesis by blast
qed

theorem C6_transient_class_counterexample:
  "isinstance (plain_error TransientSSLError ''handshake failure'') SSLError
   \<and> \<not> sublist TRANSIENT_SSL_ERROR (exc_str (plain_error TransientSSLError ''handshake failure''))
   \<and> retry_loop (Retry_init None None None None) scripted_env (7::nat)
       \<lparr>world = (0, [(Raise (plain_error TransientSSLError ''handshake failure''), 2)]),
        trace = []\<rparr> =
     Some (Return 7, \<lparr>world = (3, []), trace = [Called, Slept 1, Called]\<rparr>)"
proof -
  have a: "isinstance (plain_error TransientSSLError ''handshake failure'') SSLError"
    by (simp add: plain_error_def isinstance_def issubclass_def)
  have b: "\<not> sublist TRANSIENT_SSL_ERROR
               (exc_str (plain_error TransientSSLError ''handshake failure''))"
    by (simp add: plain_error_def TRANSIENT_SSL_ERROR_def sublist_code(3))
  have c: "retry_loop (Retry_init None None None None) scripted_env (7::nat)
       \<lparr>world = (0, [(Raise (plain_error TransientSSLError ''handshake failure''), 2)]),
        trace = []\<rparr> =
     Some (Return 7, \<lparr>world = (3, []), trace = [Called, Slept 1, Called]\<rparr>)"
    using b
    by (simp add: retry_loop_def retry_while.simps Retry_init_def scripted_env_def
        scripted_func_def plain_error_def transform_ssl_error_def
        time_sleep_def isinstance_def issubclass_def DEFAULT_TIMEOUT_def DEFAULT_DELAY_def
        DEFAULT_BACKOFF_def RETRY_EXCEPTIONS_def should_retry_def)
  from a b c show ?thesis by blast
qed

subsection \<open>C7: success on the first call\<close>

text \<open>
  Claim C7.  For every configuration and every argument list, if the callable
  returns a value on its first call, the wrapped callable returns exactly that value
  after exactly one call and without any sleep: the trace of the run is the single
  event \<open>Called\<close>.
\<close>

theorem C7_first_success:
  "env_func env args w = (Return v, w') \<Longrightarrow>
   retry_loop self env args \<lparr>world = w, trace = []\<rparr> =
     Some (Return v, \<lparr>world = w', trace = [Called]\<rparr>)"
  by (simp add: retry_loop_def while_Return transform_Return)

theorem C7_first_success_witness:
  "env_func scripted_env (7::nat) (0, []) = (Return 7, (0, []))
   \<and> retry_loop (Retry_init None None None None) scripted_env (7::nat)
       \<lparr>world = (0, []), trace = []\<rparr> =
     Some (Return 7, \<lparr>world = (0, []), trace = [Called]\<rparr>)"
proof -
  have h: "env_func scripted_env (7::nat) (0, []) = (Return 7, (0, []))"
    by (simp add: scripted_env_def scripted_func_def)
  show ?thesis
    using h C7_first_success [OF h, of "Retry_init None None None None"] by simp
qed

subsection \<open>C8: construction\<close>

text \<open>
  Claim C8.  After construction every argument that was left out or given as
  \<^verbatim>\<open>None\<close> has its default: the retryable classes are the six built-in ones, the
  initial delay is 1, the timeout 30, the back-off factor 1; and the timeout stored
  is the larger of the timeout given and 0.  With a timeout given as 0 or less, so
  stored as 0, a callable that raises an error other than a rate-limit error is
  called once and the error is raised: the error itself, or the
  \<^verbatim>\<open>TransientSSLError\<close> that takes the place of an SSL error with the marker text.
  The clock is taken not to run backwards while the callable runs.
\<close>

theorem C8_construction:
  "retry_exceptions (Retry_init exceptions_arg delay_arg timeout_arg backoff_arg) =
     (case exceptions_arg of
        None \<Rightarrow> [RateLimitReachedError, socket_error, gaierror, NotConnected,
                 ImproperConnectionState, TransientSSLError]
      | Some x \<Rightarrow> x)
   \<and> retry_delay (Retry_init exceptions_arg delay_arg timeout_arg backoff_arg) =
       (case delay_arg of None \<Rightarrow> 1 | Some x \<Rightarrow> x)
   \<and> timeout (Retry_init exceptions_arg delay_arg timeout_arg backoff_arg) =
       max (case timeout_arg of None \<Rightarrow> 30 | Some x \<Rightarrow> x) 0
   \<and> backoff (Retry_init exceptions_arg delay_arg timeout_arg backoff_arg) =
       (case backoff_arg of None \<Rightarrow> 1 | Some x \<Rightarrow> x)
   \<and> (t \<le> 0 \<and> env_func env args w = (Raise e, w1) \<and> \<not> isinstance e RateLimitReachedError
        \<and> env_now env w \<le> env_now env w1 \<longrightarrow>
      retry_loop (Retry_init exceptions_arg delay_arg (Some t) backoff_arg) env args
          \<lparr>world = w, trace = []\<rparr> =
        Some (Raise (if isinstance e SSLError \<and> sublist TRANSIENT_SSL_ERROR (exc_str e)
                     then e\<lparr>exc_type := TransientSSLError\<rparr> else e),
              \<lparr>world = w1, trace = [Called]\<rparr>))"
proof -
  let ?r = "Retry_init exceptions_arg delay_arg (Some t) backoff_arg"
  let ?e' = "if isinstance e SSLError \<and> sublist TRANSIENT_SSL_ERROR (exc_str e)
             then e\<lparr>exc_type := TransientSSLError\<rparr> else e"
  have fields:
    "retry_exceptions (Retry_init exceptions_arg delay_arg timeout_arg backoff_arg) =
       (case exceptions_arg of
          None \<Rightarrow> [RateLimitReachedError, socket_error, gaierror, NotConnected,
                   ImproperConnectionState, TransientSSLError]
        | Some x \<Rightarrow> x)"
    "retry_delay (Retry_init exceptions_arg delay_arg timeout_arg backoff_arg) =
       (case delay_arg of None \<Rightarrow> 1 | Some x \<Rightarrow> x)"
    "timeout (Retry_init exceptions_arg delay_arg timeout_arg backoff_arg) =
       max (case timeout_arg of None \<Rightarrow> 30 | Some x \<Rightarrow> x) 0"
    "backoff (Retry_init exceptions_arg delay_arg timeout_arg backoff_arg) =
       (case backoff_arg of None \<Rightarrow> 1 | Some x \<Rightarrow> x)"
    by (simp_all add: Retry_init_def RETRY_EXCEPTIONS_def DEFAULT_DELAY_def DEFAULT_TIMEOUT_def
        DEFAULT_BACKOFF_def split: option.splits)
  have once: "retry_loop ?r env args \<lparr>world = w, trace = []\<rparr> =
                Some (Raise ?e', \<lparr>world = w1, trace = [Called]\<rparr>)"
    if h: "t \<le> 0" "env_func env args w = (Raise e, w1)" "\<not> isinstance e RateLimitReachedError"
       "env_now env w \<le> env_now env w1"
  proof -
    have tm: "timeout ?r = 0"
      using h(1) by (simp add: Retry_init_def)
    have t: "transform_ssl_error env args \<lparr>world = w, trace = []\<rparr> =
               (Raise ?e', \<lparr>world = w1, trace = [Called]\<rparr>)"
      using h(2) by (auto simp: transform_ssl_error_def Let_def)
    have nrl: "\<not> isinstance ?e' RateLimitReachedError"
      using h(3) by (simp add: isinstance_def issubclass_def)
    have dl: "env_now env (world \<lparr>world = w, trace = []\<rparr>) + timeout ?r
                \<le> env_now env (world \<lparr>world = w1, trace = [Called]\<rparr>)"
      using h(4) by (simp add: tm)
    from while_deadline [OF t nrl dl] show ?thesis
      by (simp only: retry_loop_def)
  qed
  from fields once show ?thesis by blast
qed

theorem C8_construction_witness:
  "Retry_init None None None None =
     \<lparr>retry_exceptions = [RateLimitReachedError, socket_error, gaierror, NotConnected,
                          ImproperConnectionState, TransientSSLError],
      retry_delay = 1, timeout = 30, backoff = 1\<rparr>
   \<and> timeout (Retry_init None None (Some (-5)) None) = 0
   \<and> (-5::real) \<le> 0
   \<and> env_func scripted_env (7::nat)
        (0, [(Raise (plain_error socket_error ''Connection reset by peer''), 0)]) =
      (Raise (plain_error socket_error ''Connection reset by peer''), (0, []))
   \<and> \<not> isinstance (plain_error socket_error ''Connection reset by peer'') RateLimitReachedError
   \<and> env_now scripted_env
        ((0, [(Raise (plain_error socket_error ''Connection reset by peer''), 0)]) :: nat scripted)
      \<le> env_now scripted_env ((0, []) :: nat scripted)
   \<and> should_retry (Retry_init None None (Some (-5)) None)
        (plain_error socket_error ''Connection reset by peer'')
   \<and> retry_loop (Retry_init None None (Some (-5)) None) scripted_env (7::nat)
        \<lparr>world = (0, [(Raise (plain_error socket_error ''Connection reset by peer''), 0)]),
         trace = []\<rparr> =
      Some (Raise (plain_error socket_error ''Connection reset by peer''),
            \<lparr>world = (0, []), trace = [Called]\<rparr>)"
proof -
  let ?e = "plain_error socket_error ''Connection reset by peer''"
  let ?w = "(0, [(Raise ?e, 0)]) :: nat scripted"
  have flds: "retry_exceptions (Retry_init None None None None) =
                [RateLimitReachedError, socket_error, gaierror, NotConnected,
                 ImproperConnectionState, TransientSSLError]"
    "retry_delay (Retry_init None None None None) = 1"
    "timeout (Retry_init None None None None) = 30"
    "backoff (Retry_init None None None None) = 1"
    "timeout (Retry_init None None (Some (-5)) None) = 0"
    using C8_construction [of None None None None "-5" scripted_env "7::nat" ?w ?e "(0, [])"]
      C8_construction [of None None "Some (-5)" None "-5" scripted_env "7::nat" ?w ?e "(0, [])"]
    by simp_all
  have a: "Retry_init None None None None =
     \<lparr>retry_exceptions = [RateLimitReachedError, socket_error, gaierror, NotConnected,
                          ImproperConnectionState, TransientSSLError],
      retry_delay = 1, timeout = 30, backoff = 1\<rparr>"
    using flds(1-4) by (cases "Retry_init None None None None") simp
  have h1: "(-5::real) \<le> 0" by simp
  have h2: "env_func scripted_env (7::nat) ?w = (Raise ?e, (0, []))"
    by (simp add: scripted_env_def scripted_func_def)
  have h3: "\<not> isinstance ?e RateLimitReachedError"
    by (simp add: plain_error_def isinstance_def issubclass_def)
  have h4: "env_now scripted_env ?w \<le> env_now scripted_env ((0, []) :: nat scripted)"
    by (simp add: scripted_env_def)
  have h5: "should_retry (Retry_init None None (Some (-5)) None) ?e"
    by (simp add: should_retry_def Retry_init_def RETRY_EXCEPTIONS_def plain_error_def)
  have nssl: "\<not> isinstance ?e SSLError"
    by (simp add: plain_error_def isinstance_def issubclass_def)
  have b: "retry_loop (Retry_init None None (Some (-5)) None) scripted_env (7::nat)
        \<lparr>world = ?w, trace = []\<rparr> = Some (Raise ?e, \<lparr>world = (0, []), trace = [Called]\<rparr>)"
    using C8_construction [of None None None None "-5" scripted_env 7 ?w ?e "(0, [])"]
      h1 h2 h3 h4 nssl
    by simp
  from a flds(5) h1 h2 h3 h4 h5 b show ?thesis by blast
qed

subsection \<open>C9: the rate-limit test follows the class hierarchy\<close>

text \<open>
  Claim C9, as the code has it.  The rate-limit branch is chosen by \<^verbatim>\<open>isinstance\<close>:
  an error whose class is the rate-limit class or any subclass of it is handled by
  that branch, whatever \<^verbatim>\<open>current_delay\<close> and the deadline are, although an instance
  of a proper subclass fails the exact-class test \<^verbatim>\<open>should_retry\<close> makes against the
  default retryable classes.  The branch calls \<^verbatim>\<open>time.sleep(retry_after)\<close>: with a
  \<^verbatim>\<open>retry_after\<close> that is not negative the loop sleeps that long and goes on with the
  delay reset and the deadline moved, and a next call that returns ends the run
  with its value; a negative \<^verbatim>\<open>retry_after\<close> is refused by \<^verbatim>\<open>time.sleep\<close>, whose
  \<^verbatim>\<open>ValueError\<close> ends the loop.
\<close>

theorem C9_rate_limit_isinstance:
  assumes "env_func env args (world s) = (Raise e, w1)"
    and "issubclass (exc_type e) RateLimitReachedError"
  shows "(0 \<le> retry_after e \<longrightarrow>
            retry_while self env args current_delay end_time s =
              retry_while self env args (retry_delay self)
                (env_now env (env_sleep env (retry_after e) w1) + (retry_after e + timeout self))
                \<lparr>world = env_sleep env (retry_after e) w1,
                 trace = trace s @ [Called, Slept (retry_after e)]\<rparr>)
       \<and> (0 \<le> retry_after e
            \<and> env_func env args (env_sleep env (retry_after e) w1) = (Return v, w3) \<longrightarrow>
            retry_while self env args current_delay end_time s =
              Some (Return v,
                    \<lparr>world = w3, trace = trace s @ [Called, Slept (retry_after e), Called]\<rparr>))
       \<and> (retry_after e < 0 \<longrightarrow>
            retry_while self env args current_delay end_time s =
              Some (Raise sleep_error, \<lparr>world = w1, trace = trace s @ [Called]\<rparr>))
       \<and> (exc_type e \<noteq> RateLimitReachedError \<longrightarrow>
            \<not> should_retry (Retry_init None delay_arg timeout_arg backoff_arg) e)"
proof -
  have rl: "isinstance e RateLimitReachedError"
    using assms(2) by (simp add: isinstance_def)
  have branch: "retry_while self env args current_delay end_time s =
              retry_while self env args (retry_delay self)
                (env_now env (env_sleep env (retry_after e) w1) + (retry_after e + timeout self))
                \<lparr>world = env_sleep env (retry_after e) w1,
                 trace = trace s @ [Called, Slept (retry_after e)]\<rparr>"
    if "0 \<le> retry_after e"
    using assms(1) rl that by (rule turn_RateLimit)
  have ret: "retry_while self env args current_delay end_time s =
              Some (Return v,
                    \<lparr>world = w3, trace = trace s @ [Called, Slept (retry_after e), Called]\<rparr>)"
    if "0 \<le> retry_after e" "env_func env args (env_sleep env (retry_after e) w1) = (Return v, w3)"
    using that(2) by (simp add: branch [OF that(1)] turn_Return)
  have neg: "retry_while self env args current_delay end_time s =
              Some (Raise sleep_error, \<lparr>world = w1, trace = trace s @ [Called]\<rparr>)"
    if "retry_after e < 0"
    using assms(1) rl that by (rule turn_RateLimit_negative)
  have "exc_type e \<notin> set RETRY_EXCEPTIONS" if "exc_type e \<noteq> RateLimitReachedError"
    using that assms(2) by (auto simp: RETRY_EXCEPTIONS_def issubclass_def)
  then have nsr: "exc_type e \<noteq> RateLimitReachedError \<longrightarrow>
        \<not> should_retry (Retry_init None delay_arg timeout_arg backoff_arg) e"
    by (simp add: should_retry_def Retry_init_def)
  from branch ret neg nsr show ?thesis by blast
qed

theorem C9_rate_limit_isinstance_witness:
  "env_func scripted_env (7::nat)
     (world \<lparr>world = (0, [(Raise (rate_limited (UserClass ''Throttled'' RateLimitReachedError) 3), 40)]),
             trace = []\<rparr>) =
     (Raise (rate_limited (UserClass ''Throttled'' RateLimitReachedError) 3), (40, []))
   \<and> issubclass (exc_type (rate_limited (UserClass ''Throttled'' RateLimitReachedError) 3))
        RateLimitReachedError
   \<and> 0 \<le> retry_after (rate_limited (UserClass ''Throttled'' RateLimitReachedError) 3)
   \<and> exc_type (rate_limited (UserClass ''Throttled'' RateLimitReachedError) 3)
        \<noteq> RateLimitReachedError
   \<and> env_func scripted_env (7::nat)
        (env_sleep scripted_env
           (retry_after (rate_limited (UserClass ''Throttled'' RateLimitReachedError) 3)) (40, []))
      = (Return 7, (43, []))
   \<and> retry_while (Retry_init None None None None) scripted_env (7::nat) 1 30
       \<lparr>world = (0, [(Raise (rate_limited (UserClass ''Throttled'' RateLimitReachedError) 3), 40)]),
        trace = []\<rparr> =
     retry_while (Retry_init None None None None) scripted_env 7 1 76
       \<lparr>world = (43, []), trace = [Called, Slept 3]\<rparr>
   \<and> retry_while (Retry_init None None None None) scripted_env (7::nat) 1 30
       \<lparr>world = (0, [(Raise (rate_limited (UserClass ''Throttled'' RateLimitReachedError) 3), 40)]),
        trace = []\<rparr> =
     Some (Return 7, \<lparr>world = (43, []), trace = [Called, Slept 3, Called]\<rparr>)
   \<and> \<not> should_retry (Retry_init None None None None)
          (rate_limited (UserClass ''Throttled'' RateLimitReachedError) 3)
   \<and> env_func scripted_env (7::nat)
     (world \<lparr>world = (0, [(Raise (rate_limited (UserClass ''Throttled'' RateLimitReachedError) (-4)), 2)]),
             trace = []\<rparr>) =
     (Raise (rate_limited (UserClass ''Throttled'' RateLimitReachedError) (-4)), (2, []))
   \<and> issubclass (exc_type (rate_limited (UserClass ''Throttled'' RateLimitReachedError) (-4)))
        RateLimitReachedError
   \<and> retry_after (rate_limited (UserClass ''Throttled'' RateLimitReachedError) (-4)) < 0
   \<and> retry_while (Retry_init None None None None) scripted_env (7::nat) 1 30
       \<lparr>world = (0, [(Raise (rate_limited (UserClass ''Throttled'' RateLimitReachedError) (-4)), 2)]),
        trace = []\<rparr> =
     Some (Raise sleep_error, \<lparr>world = (2, []), trace = [Called]\<rparr>)"
proof -
  let ?cfg = "Retry_init None None None None"
  let ?e = "rate_limited (UserClass ''Throttled'' RateLimitReachedError) 3"
  let ?n = "rate_limited (UserClass ''Throttled'' RateLimitReachedError) (-4)"
  have h1: "env_func scripted_env (7::nat)
     (world \<lparr>world = (0, [(Raise ?e, 40)]), trace = []\<rparr>) = (Raise ?e, (40, []))"
    by (simp add: scripted_env_def scripted_func_def)
  have h2: "issubclass (exc_type ?e) RateLimitReachedError"
    by (simp add: rate_limited_def issubclass_def)
  have h3: "0 \<le> retry_after ?e"
    by (simp add: rate_limited_def)
  have h4: "exc_type ?e \<noteq> RateLimitReachedError"
    by (simp add: rate_limited_def)
  have ra: "retry_after ?e = 3"
    by (simp add: rate_limited_def)
  have h5: "env_func scripted_env (7::nat) (env_sleep scripted_env (retry_after ?e) (40, []))
              = (Return 7, (43, []))"
    by (simp add: ra scripted_env_def scripted_func_def)
  have cfg: "retry_delay ?cfg = 1" "timeout ?cfg = 30"
    by (simp_all add: Retry_init_def DEFAULT_DELAY_def DEFAULT_TIMEOUT_def)
  have sl: "env_sleep scripted_env 3 (40, []) = ((43, []) :: nat scripted)"
    "env_now scripted_env ((43, []) :: nat scripted) = 43"
    by (simp_all add: scripted_env_def)
  have a: "retry_while ?cfg scripted_env (7::nat) 1 30
             \<lparr>world = (0, [(Raise ?e, 40)]), trace = []\<rparr> =
           retry_while ?cfg scripted_env 7 1 76 \<lparr>world = (43, []), trace = [Called, Slept 3]\<rparr>"
    using C9_rate_limit_isinstance [OF h1 h2, where self = ?cfg and current_delay = 1
        and end_time = 30, THEN conjunct1] h3
    by (simp add: ra cfg sl)
  have b: "retry_while ?cfg scripted_env (7::nat) 1 30
             \<lparr>world = (0, [(Raise ?e, 40)]), trace = []\<rparr> =
           Some (Return 7, \<lparr>world = (43, []), trace = [Called, Slept 3, Called]\<rparr>)"
    using C9_rate_limit_isinstance [OF h1 h2, where self = ?cfg and current_delay = 1
        and end_time = 30 and v = 7 and ?w3.0 = "(43, [])", THEN conjunct2, THEN conjunct1] h3 h5
    by (simp add: ra)
  have c: "\<not> should_retry ?cfg ?e"
    using C9_rate_limit_isinstance [OF h1 h2, where delay_arg = None and timeout_arg = None
        and backoff_arg = None, THEN conjunct2, THEN conjunct2, THEN conjunct2] h4
    by blast
  have n1: "env_func scripted_env (7::nat)
     (world \<lparr>world = (0, [(Raise ?n, 2)]), trace = []\<rparr>) = (Raise ?n, (2, []))"
    by (simp add: scripted_env_def scripted_func_def)
  have n2: "issubclass (exc_type ?n) RateLimitReachedError"
    by (simp add: rate_limited_def issubclass_def)
  have n3: "retry_after ?n < 0"
    by (simp add: rate_limited_def)
  have d: "retry_while ?cfg scripted_env (7::nat) 1 30
             \<lparr>world = (0, [(Raise ?n, 2)]), trace = []\<rparr> =
           Some (Raise sleep_error, \<lparr>world = (2, []), trace = [Called]\<rparr>)"
    using C9_rate_limit_isinstance [OF n1 n2, where self = ?cfg and current_delay = 1
        and end_time = 30, THEN conjunct2, THEN conjunct2, THEN conjunct1] n3
    by simp
  from h1 h2 h3 h4 h5 a b c n1 n2 n3 d show ?thesis by blast
qed

theorem C9_negative_retry_after_counterexample:
  "isinstance (rate_limited (UserClass ''SlowDown'' RateLimitReachedError) (-3))
     RateLimitReachedError
   \<and> retry_after (rate_limited (UserClass ''SlowDown'' RateLimitReachedError) (-3)) = -3
   \<and> retry_loop (Retry_init None None None None) scripted_env (7::nat)
       \<lparr>world = (0, [(Raise (rate_limited (UserClass ''SlowDown'' RateLimitReachedError) (-3)), 1),
                     (Return 8, 1)]), trace = []\<rparr> =
     Some (Raise sleep_error, \<lparr>world = (1, [(Return 8, 1)]), trace = [Called]\<rparr>)"
proof -
  have a: "isinstance (rate_limited (UserClass ''SlowDown'' RateLimitReachedError) (-3))
             RateLimitReachedError"
    by (simp add: rate_limited_def isinstance_def issubclass_def)
  have b: "retry_after (rate_limited (UserClass ''SlowDown'' RateLimitReachedError) (-3)) = -3"
    by (simp add: rate_limited_def)
  have c: "retry_loop (Retry_init None None None None) scripted_env (7::nat)
       \<lparr>world = (0, [(Raise (rate_limited (UserClass ''SlowDown'' RateLimitReachedError) (-3)), 1),
                     (Return 8, 1)]), trace = []\<rparr> =
     Some (Raise sleep_error, \<lparr>world = (1, [(Return 8, 1)]), trace = [Called]\<rparr>)"
    by (simp add: retry_loop_def retry_while.simps Retry_init_def scripted_env_def
        scripted_func_def rate_limited_def transform_ssl_error_def
        time_sleep_def isinstance_def issubclass_def DEFAULT_TIMEOUT_def DEFAULT_DELAY_def
        DEFAULT_BACKOFF_def RETRY_EXCEPTIONS_def should_retry_def)
  from a b c show ?thesis by blast
qed

subsection \<open>C10: exceptions outside \<open>Exception\<close>\<close>

text \<open>
  Claim C10.  The loop catches only instances of \<^verbatim>\<open>Exception\<close>.  An exception of another
  class (\<^verbatim>\<open>KeyboardInterrupt\<close>, \<^verbatim>\<open>SystemExit\<close>, any \<^verbatim>\<open>BaseException\<close> that is no
  \<^verbatim>\<open>Exception\<close>) raised by the first call leaves the wrapped callable at once, as it
  is, with no sleep and no second call, whatever the configuration.
\<close>

theorem C10_outside_Exception:
  "env_func env args w = (Raise e, w') \<Longrightarrow> \<not> isinstance e Exception \<Longrightarrow>
   retry_loop self env args \<lparr>world = w, trace = []\<rparr> =
     Some (Raise e, \<lparr>world = w', trace = [Called]\<rparr>)"
proof -
  assume f: "env_func env args w = (Raise e, w')" and ne: "\<not> isinstance e Exception"
  from ne have "\<not> isinstance e SSLError"
    using isinstance_SSLError_Exception by blast
  with f have "transform_ssl_error env args \<lparr>world = w, trace = []\<rparr> =
               (Raise e, \<lparr>world = w', trace = [Called]\<rparr>)"
    by (simp add: transform_Raise_plain)
  then show ?thesis
    using ne by (simp add: retry_loop_def while_not_Exception)
qed

theorem C10_outside_Exception_witness:
  "env_func scripted_env (7::nat)
       (0, [(Raise (plain_error KeyboardInterrupt ''''), 2), (Return 8, 1)]) =
     (Raise (plain_error KeyboardInterrupt ''''), (2, [(Return 8, 1)]))
   \<and> \<not> isinstance (plain_error KeyboardInterrupt '''') Exception
   \<and> retry_loop (Retry_init (Some [KeyboardInterrupt]) None None None) scripted_env (7::nat)
       \<lparr>world = (0, [(Raise (plain_error KeyboardInterrupt ''''), 2), (Return 8, 1)]),
        trace = []\<rparr> =
     Some (Raise (plain_error KeyboardInterrupt ''''),
           \<lparr>world = (2, [(Return 8, 1)]), trace = [Called]\<rparr>)"
proof -
  have h1: "env_func scripted_env (7::nat)
       (0, [(Raise (plain_error KeyboardInterrupt ''''), 2), (Return 8, 1)]) =
     (Raise (plain_error KeyboardInterrupt ''''), (2, [(Return 8, 1)]))"
    by (simp add: scripted_env_def scripted_func_def)
  have h2: "\<not> isinstance (plain_error KeyboardInterrupt '''') Exception"
    by (simp add: plain_error_def isinstance_def issubclass_def)
  show ?thesis
    using h1 h2
      C10_outside_Exception [OF h1 h2, of "Retry_init (Some [KeyboardInterrupt]) None None None"]
    by simp
qed

end
